theory Spec2Isabelle
  imports Complex_Main
begin

section \<open>Values shared by the broker's operations\<close>

text \<open>
  The errors the broker returns. The first six are the constants of the broker protocol
  library that \<^verbatim>\<open>csibroker.go\<close> names; every other error (\<^verbatim>\<open>errors.New\<close>,
  \<^verbatim>\<open>fmt.Errorf\<close>, and whatever a collaborator hands back) is its message.
\<close>

datatype error =
    ErrRawParamsInvalid
  | ErrInstanceAlreadyExists
  | ErrInstanceDoesNotExist
  | ErrAppGuidNotProvided
  | ErrBindingAlreadyExists
  | ErrBindingDoesNotExist
  | ErrorString string

text \<open>
  A Go call either returns a value with a nil error, returns a non-nil error (the value
  beside it is ignored by every caller in the source), or panics.
\<close>

datatype 'a outcome = Returns 'a | Fails error | Panics

text \<open>
  What \<^verbatim>\<open>encoding/json\<close> produces when it decodes into \<^verbatim>\<open>interface{}\<close>:
  nil, bool, float64, string, a slice, or a string-keyed map.
\<close>

datatype json =
    JNull
  | JBool bool
  | JNumber real
  | JString string
  | JArray "json list"
  | JObject "(string \<times> json) list"

type_synonym parameters = "string \<rightharpoonup> json"

section \<open>Parameter evaluator\<close>

definition DefaultContainerPath :: string where
  "DefaultContainerPath = ''/var/vcap/data''"

subsection \<open>\<^verbatim>\<open>path.Join\<close> of the Go standard library\<close>

text \<open>
  \<^verbatim>\<open>path.Join\<close> is not part of the repository. It joins the non-empty elements with a
  slash and returns the \<^verbatim>\<open>path.Clean\<close> of the result: the shortest equivalent path,
  where empty and \<^verbatim>\<open>.\<close> elements are dropped, an inner \<^verbatim>\<open>..\<close> removes the element
  before it, a \<^verbatim>\<open>..\<close> at the root is dropped, and leading \<^verbatim>\<open>..\<close> elements of a
  relative path are kept. The model works on the list of elements between slashes.
\<close>

fun split_path :: "string \<Rightarrow> string list" where
  "split_path [] = [[]]"
| "split_path (c # cs) =
     (if c = CHR ''/'' then [] # split_path cs
      else (case split_path cs of [] \<Rightarrow> [[c]] | e # es \<Rightarrow> (c # e) # es))"

fun join_slash :: "string list \<Rightarrow> string" where
  "join_slash [] = []"
| "join_slash [e] = e"
| "join_slash (e # es) = e @ ''/'' @ join_slash es"

fun clean_elems :: "bool \<Rightarrow> string list \<Rightarrow> string list \<Rightarrow> string list" where
  "clean_elems rooted acc [] = rev acc"
| "clean_elems rooted acc (e # es) =
     (if e = [] \<or> e = ''.'' then clean_elems rooted acc es
      else if e = ''..'' then
        (case acc of
           [] \<Rightarrow> if rooted then clean_elems rooted [] es else clean_elems rooted [e] es
         | a # as \<Rightarrow> if a = ''..'' then clean_elems rooted (e # acc) es
                     else clean_elems rooted as es)
      else clean_elems rooted (e # acc) es)"

definition path_Clean :: "string \<Rightarrow> string" where
  "path_Clean p =
     (case p of
        [] \<Rightarrow> ''.''
      | c # _ \<Rightarrow>
          (let rooted = (c = CHR ''/'');
               es = clean_elems rooted [] (split_path p)
           in if rooted then ''/'' @ join_slash es
              else if es = [] then ''.'' else join_slash es))"

definition path_Join :: "string list \<Rightarrow> string" where
  "path_Join elem =
     (case dropWhile (\<lambda>e. e = []) elem of
        [] \<Rightarrow> []
      | es \<Rightarrow> path_Clean (join_slash es))"

subsection \<open>The evaluators of \<^verbatim>\<open>csibroker.go\<close>\<close>

text \<open>
  \<^verbatim>\<open>containerPath != ""\<close> compares an interface value with a string: it is false only
  for the empty string itself, and true for every value of another dynamic type. The type
  assertion \<^verbatim>\<open>containerPath.(string)\<close> that follows panics on such a value.
\<close>

definition evaluateContainerPath :: "parameters \<Rightarrow> string \<Rightarrow> string outcome" where
  "evaluateContainerPath parameters volId =
     (case parameters ''mount'' of
        Some containerPath \<Rightarrow>
          (if containerPath \<noteq> JString [] then
             (case containerPath of JString s \<Rightarrow> Returns s | _ \<Rightarrow> Panics)
           else Returns (path_Join [DefaultContainerPath, volId]))
      | None \<Rightarrow> Returns (path_Join [DefaultContainerPath, volId]))"

text \<open>The result is a Go map or nil: \<open>None\<close> is nil.\<close>

definition evaluateId :: "parameters \<Rightarrow> (string \<times> string) list option outcome" where
  "evaluateId parameters =
     (case parameters ''uid'' of
        None \<Rightarrow> Returns None
      | Some u \<Rightarrow>
          (case parameters ''gid'' of
             None \<Rightarrow> Returns None
           | Some g \<Rightarrow>
               (case u of
                  JString uid \<Rightarrow>
                    (case g of
                       JString gid \<Rightarrow> Returns (Some [(''uid'', uid), (''gid'', gid)])
                     | _ \<Rightarrow> Panics)
                | _ \<Rightarrow> Panics)))"

definition readOnlyToMode :: "bool \<Rightarrow> string" where
  "readOnlyToMode ro = (if ro then ''r'' else ''rw'')"

definition evaluateMode :: "parameters \<Rightarrow> string outcome" where
  "evaluateMode parameters =
     (case parameters ''readonly'' of
        Some ro \<Rightarrow>
          (case ro of
             JBool b \<Rightarrow> Returns (readOnlyToMode b)
           | _ \<Rightarrow> Fails ErrRawParamsInvalid)
      | None \<Rightarrow> Returns ''rw'')"

section \<open>Data model\<close>

text \<open>
  Modelled from the spec: the plugin protocol's volume descriptor (\<^verbatim>\<open>csi.Volume\<close>,
  declared outside the repository) "carries an opaque volume-id and a mapping of context
  attributes". A Go \<^verbatim>\<open>map[string]string\<close> is an association list here; the nil map is
  the empty list.
\<close>

record Volume =
  VolumeId :: string
  VolumeContext :: "(string \<times> string) list"

text \<open>\<^verbatim>\<open>Volume *csi.Volume\<close>: \<open>None\<close> is the nil pointer.\<close>

record ServiceFingerPrint =
  Name :: string
  Volume :: "Volume option"

text \<open>
  The fingerprint slot of a stored instance is an \<^verbatim>\<open>interface{}\<close>. It holds a pointer
  to a fingerprint (the type \<^verbatim>\<open>getFingerprint\<close> asserts), a fingerprint by value (what
  \<^verbatim>\<open>Provision\<close> stores), or the generic document a store hands back after a reload.
\<close>

datatype rawObject =
    Pointer ServiceFingerPrint
  | Struct ServiceFingerPrint
  | Generic json

record ServiceInstance =
  si_ServiceID :: string
  si_PlanID :: string
  si_OrganizationGUID :: string
  si_SpaceGUID :: string
  si_ServiceFingerPrint :: rawObject

text \<open>
  Of the create-volume request only the two fields the broker reads are named; the raw
  parameter bytes are decoded by \<^verbatim>\<open>jsonpb\<close>, a collaborator (see \<open>env\<close> below).
\<close>

record CreateVolumeRequest =
  req_Name :: string
  req_VolumeCapabilities :: "string list"

record DeleteVolumeRequest =
  del_VolumeId :: string
  del_Secrets :: "(string \<times> string) list"

record ProvisionDetails =
  pd_ServiceID :: string
  pd_PlanID :: string
  pd_OrganizationGUID :: string
  pd_SpaceGUID :: string
  pd_RawParameters :: string

record DeprovisionDetails =
  dd_PlanID :: string
  dd_ServiceID :: string

text \<open>
  The bytes of a \<^verbatim>\<open>json.RawMessage\<close> are represented by what a JSON parser makes of
  them: a document, or nothing when they are not JSON.
\<close>

datatype RawMessage = Malformed | Document json

text \<open>\<open>bd_RawParameters = None\<close> is the nil message.\<close>

record BindDetails =
  bd_AppGUID :: string
  bd_PlanID :: string
  bd_ServiceID :: string
  bd_RawParameters :: "RawMessage option"

record UnbindDetails =
  ud_PlanID :: string
  ud_ServiceID :: string

record ProvisionedServiceSpec =
  ps_IsAsync :: bool

record DeprovisionServiceSpec =
  ds_IsAsync :: bool
  ds_OperationData :: string

text \<open>The values of the \<^verbatim>\<open>MountConfig\<close> map of a shared device.\<close>

datatype config_value =
    ConfigString string
  | ConfigMap "(string \<times> string) list"
  | ConfigIds "(string \<times> string) list option"

record SharedDevice =
  sd_VolumeId :: string
  sd_MountConfig :: "(string \<times> config_value) list"

record VolumeMount =
  vm_Driver :: string
  vm_ContainerDir :: string
  vm_Mode :: string
  vm_DeviceType :: string
  vm_Device :: SharedDevice

text \<open>
  \<^verbatim>\<open>Credentials\<close> is an \<^verbatim>\<open>interface{}\<close>: \<open>None\<close> is nil, and the empty struct
  \<^verbatim>\<open>struct{}{}\<close> is the empty object.
\<close>

record Binding =
  b_Credentials :: "json option"
  b_VolumeMounts :: "VolumeMount list"

section \<open>Reconstructing a fingerprint\<close>

text \<open>
  \<^verbatim>\<open>encoding/json\<close> is a collaborator. Its wire text is represented by the document it
  denotes, so marshalling a generic document is the identity; a struct is marshalled
  field by field under the field's name (\<^verbatim>\<open>Name\<close>, \<^verbatim>\<open>Volume\<close>) or its tag
  (\<^verbatim>\<open>volume_id\<close>, \<^verbatim>\<open>volume_context\<close>, both \<^verbatim>\<open>omitempty\<close>), a nil pointer as null.
  Unmarshalling into a struct reads the keys it knows, leaves a field at its zero value
  when the key is missing or null, and fails on a value of the wrong type. Documents are
  Go maps, so a key occurs once; keys are matched as written.
\<close>

definition marshal_context :: "(string \<times> string) list \<Rightarrow> json" where
  "marshal_context m = JObject (map (\<lambda>(k, v). (k, JString v)) m)"

definition marshal_Volume :: "Volume \<Rightarrow> json" where
  "marshal_Volume v =
     JObject
       ((if VolumeId v = [] then [] else [(''volume_id'', JString (VolumeId v))]) @
        (if VolumeContext v = [] then []
         else [(''volume_context'', marshal_context (VolumeContext v))]))"

definition marshal_ServiceFingerPrint :: "ServiceFingerPrint \<Rightarrow> json" where
  "marshal_ServiceFingerPrint f =
     JObject
       [(''Name'', JString (Name f)),
        (''Volume'', (case Volume f of None \<Rightarrow> JNull | Some v \<Rightarrow> marshal_Volume v))]"

text \<open>The pointer case never reaches \<^verbatim>\<open>json.Marshal\<close>; it would marshal as the struct does.\<close>

fun json_Marshal :: "rawObject \<Rightarrow> error + json" where
  "json_Marshal (Pointer f) = Inr (marshal_ServiceFingerPrint f)"
| "json_Marshal (Struct f) = Inr (marshal_ServiceFingerPrint f)"
| "json_Marshal (Generic j) = Inr j"

definition type_error :: error where
  "type_error = ErrorString ''json: cannot unmarshal value into Go value''"

fun unmarshal_string :: "json option \<Rightarrow> error + string" where
  "unmarshal_string None = Inr []"
| "unmarshal_string (Some JNull) = Inr []"
| "unmarshal_string (Some (JString s)) = Inr s"
| "unmarshal_string (Some _) = Inl type_error"

fun unmarshal_entries :: "(string \<times> json) list \<Rightarrow> error + (string \<times> string) list" where
  "unmarshal_entries [] = Inr []"
| "unmarshal_entries ((k, j) # kvs) =
     (case unmarshal_string (Some j) of
        Inl e \<Rightarrow> Inl e
      | Inr s \<Rightarrow>
          (case unmarshal_entries kvs of
             Inl e \<Rightarrow> Inl e
           | Inr m \<Rightarrow> Inr ((k, s) # m)))"

fun unmarshal_context :: "json option \<Rightarrow> error + (string \<times> string) list" where
  "unmarshal_context None = Inr []"
| "unmarshal_context (Some JNull) = Inr []"
| "unmarshal_context (Some (JObject kvs)) = unmarshal_entries kvs"
| "unmarshal_context (Some _) = Inl type_error"

fun unmarshal_Volume :: "json option \<Rightarrow> error + Volume option" where
  "unmarshal_Volume None = Inr None"
| "unmarshal_Volume (Some JNull) = Inr None"
| "unmarshal_Volume (Some (JObject kvs)) =
     (case unmarshal_string (map_of kvs ''volume_id'') of
        Inl e \<Rightarrow> Inl e
      | Inr i \<Rightarrow>
          (case unmarshal_context (map_of kvs ''volume_context'') of
             Inl e \<Rightarrow> Inl e
           | Inr c \<Rightarrow> Inr (Some \<lparr>VolumeId = i, VolumeContext = c\<rparr>)))"
| "unmarshal_Volume (Some _) = Inl type_error"

fun json_Unmarshal :: "json \<Rightarrow> error + ServiceFingerPrint" where
  "json_Unmarshal JNull = Inr \<lparr>Name = [], Volume = None\<rparr>"
| "json_Unmarshal (JObject kvs) =
     (case unmarshal_string (map_of kvs ''Name'') of
        Inl e \<Rightarrow> Inl e
      | Inr n \<Rightarrow>
          (case unmarshal_Volume (map_of kvs ''Volume'') of
             Inl e \<Rightarrow> Inl e
           | Inr v \<Rightarrow> Inr \<lparr>Name = n, Volume = v\<rparr>))"
| "json_Unmarshal _ = Inl type_error"

definition getFingerprint :: "rawObject \<Rightarrow> error + ServiceFingerPrint" where
  "getFingerprint rawObject =
     (case rawObject of
        Pointer fingerprint \<Rightarrow> Inr fingerprint
      | _ \<Rightarrow>
          (case json_Marshal rawObject of
             Inl err \<Rightarrow> Inl err
           | Inr rawJson \<Rightarrow>
               (case json_Unmarshal rawJson of
                  Inl err \<Rightarrow> Inl err
                | Inr fingerprint \<Rightarrow> Inr fingerprint)))"

section \<open>Collaborators\<close>

text \<open>
  The registry, the plugin behind it, the \<^verbatim>\<open>jsonpb\<close> decoder and the failures of the
  record store are not decided by the broker. One \<open>env\<close> gives, for one call of a
  lifecycle operation, the answer each of them would give; an operation asks each of them
  at most once. For the calls that return only an error, \<open>None\<close> is the nil error.
\<close>

record env =
  IdentityClient :: "string \<Rightarrow> error option"
  Probe :: "string \<Rightarrow> error option"
  ControllerClient :: "string \<Rightarrow> error option"
  CreateVolume :: "string \<Rightarrow> CreateVolumeRequest \<Rightarrow> error + Volume option"
  DeleteVolume :: "string \<Rightarrow> DeleteVolumeRequest \<Rightarrow> error option"
  DriverName :: "string \<Rightarrow> error + string"
  jsonpb_UnmarshalString :: "string \<Rightarrow> error + CreateVolumeRequest"
  Save :: "error option"
  CreateInstanceDetails_fails :: "error option"
  DeleteInstanceDetails_fails :: "error option"
  CreateBindingDetails_fails :: "error option"
  DeleteBindingDetails_fails :: "error option"

text \<open>
  Modelled from the spec: the record store (\<^verbatim>\<open>brokerstore.Store\<close>, an interface whose
  implementations are outside the repository) is "a key-value store with an explicit
  save/restore contract" holding instance records and binding records. Retrieval fails
  when the key is absent; creation is an upsert; an instance conflicts when a record
  exists for the identifier "with different {serviceID, planID, organizationGUID,
  spaceGUID}"; a binding conflicts when a record exists for the identifier "with
  different stored details". Creation and deletion fail when the environment says so, and
  then change nothing.
\<close>

record Store =
  instances :: "string \<rightharpoonup> ServiceInstance"
  bindings :: "string \<rightharpoonup> BindDetails"

definition RetrieveInstanceDetails :: "Store \<Rightarrow> string \<Rightarrow> ServiceInstance option" where
  "RetrieveInstanceDetails s key = instances s key"

definition RetrieveBindingDetails :: "Store \<Rightarrow> string \<Rightarrow> BindDetails option" where
  "RetrieveBindingDetails s key = bindings s key"

definition same_identity :: "ServiceInstance \<Rightarrow> ServiceInstance \<Rightarrow> bool" where
  "same_identity a b \<longleftrightarrow>
     si_ServiceID a = si_ServiceID b \<and> si_PlanID a = si_PlanID b \<and>
     si_OrganizationGUID a = si_OrganizationGUID b \<and> si_SpaceGUID a = si_SpaceGUID b"

definition IsInstanceConflict :: "Store \<Rightarrow> string \<Rightarrow> ServiceInstance \<Rightarrow> bool" where
  "IsInstanceConflict s key details =
     (case instances s key of
        None \<Rightarrow> False
      | Some existing \<Rightarrow> \<not> same_identity details existing)"

definition IsBindingConflict :: "Store \<Rightarrow> string \<Rightarrow> BindDetails \<Rightarrow> bool" where
  "IsBindingConflict s key details =
     (case bindings s key of
        None \<Rightarrow> False
      | Some existing \<Rightarrow> details \<noteq> existing)"

definition CreateInstanceDetails :: "env \<Rightarrow> Store \<Rightarrow> string \<Rightarrow> ServiceInstance \<Rightarrow> error + Store" where
  "CreateInstanceDetails w s key details =
     (case CreateInstanceDetails_fails w of
        Some err \<Rightarrow> Inl err
      | None \<Rightarrow> Inr (s\<lparr>instances := (instances s)(key \<mapsto> details)\<rparr>))"

definition DeleteInstanceDetails :: "env \<Rightarrow> Store \<Rightarrow> string \<Rightarrow> error + Store" where
  "DeleteInstanceDetails w s key =
     (case DeleteInstanceDetails_fails w of
        Some err \<Rightarrow> Inl err
      | None \<Rightarrow> Inr (s\<lparr>instances := (instances s)(key := None)\<rparr>))"

definition CreateBindingDetails :: "env \<Rightarrow> Store \<Rightarrow> string \<Rightarrow> BindDetails \<Rightarrow> error + Store" where
  "CreateBindingDetails w s key details =
     (case CreateBindingDetails_fails w of
        Some err \<Rightarrow> Inl err
      | None \<Rightarrow> Inr (s\<lparr>bindings := (bindings s)(key \<mapsto> details)\<rparr>))"

definition DeleteBindingDetails :: "env \<Rightarrow> Store \<Rightarrow> string \<Rightarrow> error + Store" where
  "DeleteBindingDetails w s key =
     (case DeleteBindingDetails_fails w of
        Some err \<Rightarrow> Inl err
      | None \<Rightarrow> Inr (s\<lparr>bindings := (bindings s)(key := None)\<rparr>))"

section \<open>The broker\<close>

text \<open>
  Of the fields of \<^verbatim>\<open>Broker\<close>, the latch and the store change; the registry is asked
  through \<open>env\<close>. What an operation does to the outside is the list of its events, in
  order: the plugin RPCs it issues (with the service they go to, and for a probe its
  answer), taking and releasing the mutex, and saving the store.
\<close>

record Broker =
  controllerProbed :: bool
  store :: Store

datatype event =
    EvProbe string "error option"
  | EvCreateVolume string CreateVolumeRequest
  | EvDeleteVolume string DeleteVolumeRequest
  | EvLock
  | EvSave
  | EvUnlock

text \<open>\<^verbatim>\<open>New\<close> starts with the latch unset and hands back the error of \<^verbatim>\<open>store.Restore\<close>.\<close>

definition New :: "Store \<Rightarrow> error option \<Rightarrow> Broker \<times> error option" where
  "New st restored = (\<lparr>controllerProbed = False, store = st\<rparr>, restored)"

definition instanceConflicts :: "Broker \<Rightarrow> ServiceInstance \<Rightarrow> string \<Rightarrow> bool" where
  "instanceConflicts b details instanceID = IsInstanceConflict (store b) instanceID details"

definition bindingConflicts :: "Broker \<Rightarrow> string \<Rightarrow> BindDetails \<Rightarrow> bool" where
  "bindingConflicts b bindingID details = IsBindingConflict (store b) bindingID details"

definition probeController :: "env \<Rightarrow> Broker \<Rightarrow> string \<Rightarrow> error option \<times> Broker \<times> event list" where
  "probeController w b serviceID =
     (if \<not> controllerProbed b then
        (case IdentityClient w serviceID of
           Some err \<Rightarrow> (Some err, b, [])
         | None \<Rightarrow>
             (case Probe w serviceID of
                Some err \<Rightarrow> (Some err, b, [EvProbe serviceID (Some err)])
              | None \<Rightarrow> (None, b\<lparr>controllerProbed := True\<rparr>, [EvProbe serviceID None])))
      else (None, b, []))"

text \<open>
  The deferred function of the four operations, followed by the deferred unlock:
  \<^verbatim>\<open>out := b.store.Save(logger); if e == nil { e = out }\<close>. It runs on every way out
  of the critical section, a panic included, and a panic goes on after it.
\<close>

definition deferred_Save :: "env \<Rightarrow> 'a outcome \<times> Broker \<Rightarrow> 'a outcome \<times> Broker \<times> event list" where
  "deferred_Save w r =
     (case r of
        (e, b) \<Rightarrow>
          ((case e of
              Returns v \<Rightarrow> (case Save w of None \<Rightarrow> Returns v | Some out \<Rightarrow> Fails out)
            | Fails err \<Rightarrow> Fails err
            | Panics \<Rightarrow> Panics),
           b, [EvSave, EvUnlock]))"

definition critical_section :: "event list \<Rightarrow> env \<Rightarrow> 'a outcome \<times> Broker \<Rightarrow> 'a outcome \<times> Broker \<times> event list" where
  "critical_section before w r =
     (case deferred_Save w r of (e, b, after) \<Rightarrow> (e, b, before @ [EvLock] @ after))"

subsection \<open>Provision\<close>

definition name_required :: error where
  "name_required = ErrorString (''config requires a '' @ [CHR 0x22] @ ''name'' @ [CHR 0x22])"

definition capabilities_required :: error where
  "capabilities_required =
     ErrorString (''config requires '' @ [CHR 0x22] @ ''volume_capabilities'' @ [CHR 0x22])"

text \<open>The part of \<^verbatim>\<open>Provision\<close> that runs between the deferred calls and the return.\<close>

definition Provision_locked ::
  "env \<Rightarrow> Broker \<Rightarrow> string \<Rightarrow> ProvisionDetails \<Rightarrow> CreateVolumeRequest \<Rightarrow> Volume option
     \<Rightarrow> ProvisionedServiceSpec outcome \<times> Broker" where
  "Provision_locked w b instanceID details configuration volInfo =
     (let fingerprint = \<lparr>Name = req_Name configuration, Volume = volInfo\<rparr>;
          instanceDetails =
            \<lparr>si_ServiceID = pd_ServiceID details,
             si_PlanID = pd_PlanID details,
             si_OrganizationGUID = pd_OrganizationGUID details,
             si_SpaceGUID = pd_SpaceGUID details,
             si_ServiceFingerPrint = Struct fingerprint\<rparr>
      in if instanceConflicts b instanceDetails instanceID
         then (Fails ErrInstanceAlreadyExists, b)
         else
           (case CreateInstanceDetails w (store b) instanceID instanceDetails of
              Inl err \<Rightarrow>
                (Fails (ErrorString (''failed to store instance details '' @ instanceID)), b)
            | Inr s \<Rightarrow> (Returns \<lparr>ps_IsAsync = False\<rparr>, b\<lparr>store := s\<rparr>)))"

definition Provision ::
  "env \<Rightarrow> Broker \<Rightarrow> string \<Rightarrow> ProvisionDetails
     \<Rightarrow> ProvisionedServiceSpec outcome \<times> Broker \<times> event list" where
  "Provision w b instanceID details =
     (case probeController w b (pd_ServiceID details) of
        (Some err, b1, probed) \<Rightarrow> (Fails err, b1, probed)
      | (None, b1, probed) \<Rightarrow>
          (case jsonpb_UnmarshalString w (pd_RawParameters details) of
             Inl err \<Rightarrow> (Fails ErrRawParamsInvalid, b1, probed)
           | Inr configuration \<Rightarrow>
               if req_Name configuration = [] then (Fails name_required, b1, probed)
               else if length (req_VolumeCapabilities configuration) = 0
               then (Fails capabilities_required, b1, probed)
               else
                 (case ControllerClient w (pd_ServiceID details) of
                    Some err \<Rightarrow> (Fails err, b1, probed)
                  | None \<Rightarrow>
                      (case CreateVolume w (pd_ServiceID details) configuration of
                         Inl err \<Rightarrow>
                           (Fails err, b1,
                            probed @ [EvCreateVolume (pd_ServiceID details) configuration])
                       | Inr volInfo \<Rightarrow>
                           critical_section
                             (probed @ [EvCreateVolume (pd_ServiceID details) configuration]) w
                             (Provision_locked w b1 instanceID details configuration volInfo)))))"

subsection \<open>Deprovision\<close>

definition Deprovision_locked ::
  "env \<Rightarrow> Broker \<Rightarrow> string \<Rightarrow> DeprovisionServiceSpec outcome \<times> Broker" where
  "Deprovision_locked w b instanceID =
     (case DeleteInstanceDetails w (store b) instanceID of
        Inl err \<Rightarrow> (Fails err, b)
      | Inr s \<Rightarrow>
          (Returns \<lparr>ds_IsAsync = False, ds_OperationData = ''deprovision''\<rparr>, b\<lparr>store := s\<rparr>))"

text \<open>
  \<^verbatim>\<open>fingerprint.Volume.VolumeId\<close> reads through the pointer: with a nil volume it is a
  nil dereference, a panic.
\<close>

definition Deprovision ::
  "env \<Rightarrow> Broker \<Rightarrow> string \<Rightarrow> DeprovisionDetails
     \<Rightarrow> DeprovisionServiceSpec outcome \<times> Broker \<times> event list" where
  "Deprovision w b instanceID details =
     (case probeController w b (dd_ServiceID details) of
        (Some err, b1, probed) \<Rightarrow> (Fails err, b1, probed)
      | (None, b1, probed) \<Rightarrow>
          if instanceID = []
          then (Fails (ErrorString ''volume deletion requires instance ID''), b1, probed)
          else if dd_PlanID details = []
          then (Fails (ErrorString (''volume deletion requires '' @ [CHR 0x22] @ ''plan_id''
                  @ [CHR 0x22])), b1, probed)
          else if dd_ServiceID details = []
          then (Fails (ErrorString (''volume deletion requires '' @ [CHR 0x22] @ ''service_id''
                  @ [CHR 0x22])), b1, probed)
          else
            (case RetrieveInstanceDetails (store b1) instanceID of
               None \<Rightarrow> (Fails ErrInstanceDoesNotExist, b1, probed)
             | Some instanceDetails \<Rightarrow>
                 (case getFingerprint (si_ServiceFingerPrint instanceDetails) of
                    Inl err \<Rightarrow> (Fails err, b1, probed)
                  | Inr fingerprint \<Rightarrow>
                      (case Volume fingerprint of
                         None \<Rightarrow> (Panics, b1, probed)
                       | Some volume \<Rightarrow>
                           (let configuration =
                                  \<lparr>del_VolumeId = VolumeId volume, del_Secrets = []\<rparr>
                            in case ControllerClient w (dd_ServiceID details) of
                                 Some err \<Rightarrow> (Fails err, b1, probed)
                               | None \<Rightarrow>
                                   (case DeleteVolume w (dd_ServiceID details) configuration of
                                      Some err \<Rightarrow>
                                        (Fails err, b1,
                                         probed @
                                         [EvDeleteVolume (dd_ServiceID details) configuration])
                                    | None \<Rightarrow>
                                        critical_section
                                          (probed @
                                           [EvDeleteVolume (dd_ServiceID details) configuration])
                                          w (Deprovision_locked w b1 instanceID)))))))"

subsection \<open>Bind\<close>

text \<open>
  \<^verbatim>\<open>json.Unmarshal\<close> into the parameter map: an object fills the map, a later
  occurrence of a key replacing an earlier one; null leaves it empty; any other
  document, and bytes that are not JSON, are an error.
\<close>

fun unmarshal_parameters :: "RawMessage \<Rightarrow> error + parameters" where
  "unmarshal_parameters Malformed = Inl (ErrorString ''invalid character'')"
| "unmarshal_parameters (Document JNull) = Inr Map.empty"
| "unmarshal_parameters (Document (JObject kvs)) = Inr (map_of (rev kvs))"
| "unmarshal_parameters (Document _) = Inl type_error"

definition Bind_locked ::
  "env \<Rightarrow> Broker \<Rightarrow> string \<Rightarrow> string \<Rightarrow> BindDetails \<Rightarrow> Binding outcome \<times> Broker" where
  "Bind_locked w b instanceID bindingID bindDetails =
     (case RetrieveInstanceDetails (store b) instanceID of
        None \<Rightarrow> (Fails ErrInstanceDoesNotExist, b)
      | Some instanceDetails \<Rightarrow>
          if bd_AppGUID bindDetails = [] then (Fails ErrAppGuidNotProvided, b)
          else
            (case getFingerprint (si_ServiceFingerPrint instanceDetails) of
               Inl err \<Rightarrow> (Fails err, b)
             | Inr fingerprint \<Rightarrow>
                 (case Volume fingerprint of
                    None \<Rightarrow> (Panics, b)
                  | Some volume \<Rightarrow>
                      (case (case bd_RawParameters bindDetails of
                               None \<Rightarrow> Inr Map.empty
                             | Some raw \<Rightarrow> unmarshal_parameters raw) of
                         Inl err \<Rightarrow> (Fails err, b)
                       | Inr params \<Rightarrow>
                           (case evaluateMode params of
                              Fails err \<Rightarrow> (Fails err, b)
                            | Panics \<Rightarrow> (Panics, b)
                            | Returns mode \<Rightarrow>
                                if bindingConflicts b bindingID bindDetails
                                then (Fails ErrBindingAlreadyExists, b)
                                else
                                  (case CreateBindingDetails w (store b) bindingID bindDetails of
                                     Inl err \<Rightarrow> (Fails err, b)
                                   | Inr s \<Rightarrow>
                                       (case DriverName w (bd_ServiceID bindDetails) of
                                          Inl err \<Rightarrow> (Fails err, b\<lparr>store := s\<rparr>)
                                        | Inr driverName \<Rightarrow>
                                            (case evaluateContainerPath params instanceID of
                                               Returns containerDir \<Rightarrow>
                                                 (case evaluateId params of
                                                    Returns ids \<Rightarrow>
                                                      (Returns
                                                         \<lparr>b_Credentials = Some (JObject []),
                                                          b_VolumeMounts =
                                                            [\<lparr>vm_Driver = driverName,
                                                              vm_ContainerDir = containerDir,
                                                              vm_Mode = mode,
                                                              vm_DeviceType = ''shared'',
                                                              vm_Device =
                                                                \<lparr>sd_VolumeId = instanceID @ ''-volume'',
                                                                 sd_MountConfig =
                                                                   [(''id'', ConfigString (VolumeId volume)),
                                                                    (''attributes'', ConfigMap (VolumeContext volume)),
                                                                    (''binding-params'', ConfigIds ids)]\<rparr>\<rparr>]\<rparr>,
                                                       b\<lparr>store := s\<rparr>)
                                                  | _ \<Rightarrow> (Panics, b\<lparr>store := s\<rparr>))
                                             | _ \<Rightarrow> (Panics, b\<lparr>store := s\<rparr>)))))))))"

definition Bind ::
  "env \<Rightarrow> Broker \<Rightarrow> string \<Rightarrow> string \<Rightarrow> BindDetails \<Rightarrow> Binding outcome \<times> Broker \<times> event list" where
  "Bind w b instanceID bindingID bindDetails =
     (case probeController w b (bd_ServiceID bindDetails) of
        (Some err, b1, probed) \<Rightarrow> (Fails err, b1, probed)
      | (None, b1, probed) \<Rightarrow>
          critical_section probed w (Bind_locked w b1 instanceID bindingID bindDetails))"

subsection \<open>Unbind\<close>

definition Unbind_locked :: "env \<Rightarrow> Broker \<Rightarrow> string \<Rightarrow> string \<Rightarrow> unit outcome \<times> Broker" where
  "Unbind_locked w b instanceID bindingID =
     (case RetrieveInstanceDetails (store b) instanceID of
        None \<Rightarrow> (Fails ErrInstanceDoesNotExist, b)
      | Some _ \<Rightarrow>
          (case RetrieveBindingDetails (store b) bindingID of
             None \<Rightarrow> (Fails ErrBindingDoesNotExist, b)
           | Some _ \<Rightarrow>
               (case DeleteBindingDetails w (store b) bindingID of
                  Inl err \<Rightarrow> (Fails err, b)
                | Inr s \<Rightarrow> (Returns (), b\<lparr>store := s\<rparr>))))"

definition Unbind ::
  "env \<Rightarrow> Broker \<Rightarrow> string \<Rightarrow> string \<Rightarrow> UnbindDetails \<Rightarrow> unit outcome \<times> Broker \<times> event list" where
  "Unbind w b instanceID bindingID details =
     (case probeController w b (ud_ServiceID details) of
        (Some err, b1, probed) \<Rightarrow> (Fails err, b1, probed)
      | (None, b1, probed) \<Rightarrow>
          critical_section probed w (Unbind_locked w b1 instanceID bindingID))"

subsection \<open>Sequences of operations\<close>

datatype operation =
    ProvisionOp string ProvisionDetails
  | DeprovisionOp string DeprovisionDetails
  | BindOp string string BindDetails
  | UnbindOp string string UnbindDetails

text \<open>The service an operation names, and the operation without its result value.\<close>

fun service_of :: "operation \<Rightarrow> string" where
  "service_of (ProvisionOp i d) = pd_ServiceID d"
| "service_of (DeprovisionOp i d) = dd_ServiceID d"
| "service_of (BindOp i k d) = bd_ServiceID d"
| "service_of (UnbindOp i k d) = ud_ServiceID d"

definition forget :: "'a outcome \<times> Broker \<times> event list \<Rightarrow> unit outcome \<times> Broker \<times> event list" where
  "forget r =
     (case r of
        (e, b, tr) \<Rightarrow>
          ((case e of Returns _ \<Rightarrow> Returns () | Fails err \<Rightarrow> Fails err | Panics \<Rightarrow> Panics),
           b, tr))"

fun perform :: "env \<Rightarrow> Broker \<Rightarrow> operation \<Rightarrow> unit outcome \<times> Broker \<times> event list" where
  "perform w b (ProvisionOp i d) = forget (Provision w b i d)"
| "perform w b (DeprovisionOp i d) = forget (Deprovision w b i d)"
| "perform w b (BindOp i k d) = forget (Bind w b i k d)"
| "perform w b (UnbindOp i k d) = forget (Unbind w b i k d)"

text \<open>
  One process lifetime: the operations run one after the other, each against the
  collaborators as they are at that moment. A panic is taken to end the request and not
  the process (the HTTP server that calls the broker recovers it), so the run goes on
  with the broker as the panicking operation left it.
\<close>

fun run :: "Broker \<Rightarrow> (env \<times> operation) list \<Rightarrow> Broker \<times> event list" where
  "run b [] = (b, [])"
| "run b ((w, x) # rest) =
     (case perform w b x of
        (e, b1, tr) \<Rightarrow> (case run b1 rest of (b2, tr') \<Rightarrow> (b2, tr @ tr')))"

section \<open>Notions used in the properties\<close>

text \<open>
  What the deferred function guarantees, read off the result \<open>e\<close> and the events \<open>tr\<close>
  of an operation whose critical section ended with the result \<open>inner\<close>: from the lock
  on, the events are the lock, one save and the unlock; nothing was saved before; and
  \<open>e\<close> is \<open>inner\<close>, unless \<open>inner\<close> was a success and the save failed.
\<close>

definition saved_on_exit :: "env \<Rightarrow> 'a outcome \<Rightarrow> 'a outcome \<Rightarrow> event list \<Rightarrow> bool" where
  "saved_on_exit w inner e tr \<longleftrightarrow>
     dropWhile (\<lambda>x. x \<noteq> EvLock) tr = [EvLock, EvSave, EvUnlock] \<and>
     EvSave \<notin> set (takeWhile (\<lambda>x. x \<noteq> EvLock) tr) \<and>
     e = (case inner of
            Returns v \<Rightarrow> (case Save w of None \<Rightarrow> Returns v | Some out \<Rightarrow> Fails out)
          | Fails err \<Rightarrow> Fails err
          | Panics \<Rightarrow> Panics)"

text \<open>
  The details of a provision request differ from a stored record in one of the four
  identifiers.
\<close>

definition differs :: "ProvisionDetails \<Rightarrow> ServiceInstance \<Rightarrow> bool" where
  "differs details existing \<longleftrightarrow>
     (pd_ServiceID details, pd_PlanID details, pd_OrganizationGUID details, pd_SpaceGUID details)
       \<noteq> (si_ServiceID existing, si_PlanID existing, si_OrganizationGUID existing,
          si_SpaceGUID existing)"

text \<open>
  The broker \<open>b\<close> with a record for \<open>instanceID\<close> whose fingerprint slot holds
  \<open>rawObject\<close>, and what a caller and the collaborators see of an operation: its result
  and its events.
\<close>

definition stored_as :: "Broker \<Rightarrow> string \<Rightarrow> ServiceInstance \<Rightarrow> rawObject \<Rightarrow> Broker" where
  "stored_as b instanceID instanceDetails rawObject =
     b\<lparr>store := (store b)\<lparr>instances := (instances (store b))
       (instanceID \<mapsto> instanceDetails\<lparr>si_ServiceFingerPrint := rawObject\<rparr>)\<rparr>\<rparr>"

definition observed :: "'a outcome \<times> Broker \<times> event list \<Rightarrow> 'a outcome \<times> event list" where
  "observed r = (fst r, snd (snd r))"

text \<open>
  Kinds of events, and the discipline of the probe gate on the events of a process
  lifetime: no controller RPC before the first probe that succeeds, and no probe after
  it.
\<close>

fun is_probe :: "event \<Rightarrow> bool" where
  "is_probe (EvProbe serviceID answer) = True"
| "is_probe _ = False"

fun probe_succeeded :: "event \<Rightarrow> bool" where
  "probe_succeeded (EvProbe serviceID None) = True"
| "probe_succeeded _ = False"

fun controller_rpc :: "event \<Rightarrow> bool" where
  "controller_rpc (EvCreateVolume serviceID request) = True"
| "controller_rpc (EvDeleteVolume serviceID request) = True"
| "controller_rpc _ = False"

definition gated :: "event list \<Rightarrow> bool" where
  "gated tr \<longleftrightarrow>
     list_all (\<lambda>x. \<not> controller_rpc x) (takeWhile (\<lambda>x. \<not> probe_succeeded x) tr) \<and>
     list_all (\<lambda>x. \<not> is_probe x) (tl (dropWhile (\<lambda>x. \<not> probe_succeeded x) tr))"

text \<open>
  Every operation is its probe gate followed by events that are not probes; when the
  gate fails nothing follows.
\<close>

definition after_gate ::
  "env \<Rightarrow> Broker \<Rightarrow> string \<Rightarrow> unit outcome \<times> Broker \<times> event list \<Rightarrow> bool" where
  "after_gate w b serviceID r \<longleftrightarrow>
     (case probeController w b serviceID of
        (Some err, b1, probed) \<Rightarrow> r = (Fails err, b1, probed)
      | (None, b1, probed) \<Rightarrow>
          (\<exists>rest. snd (snd r) = probed @ rest \<and> list_all (\<lambda>x. \<not> is_probe x) rest) \<and>
          controllerProbed (fst (snd r)) = controllerProbed b1)"

section \<open>Example inputs\<close>

text \<open>
  Collaborators that all answer: the plugin creates a volume named after the request, the
  decoder takes the raw parameters as the name of the volume and rejects empty input.
\<close>

definition healthy :: env where
  "healthy =
     \<lparr>IdentityClient = (\<lambda>serviceID. None),
      Probe = (\<lambda>serviceID. None),
      ControllerClient = (\<lambda>serviceID. None),
      CreateVolume = (\<lambda>serviceID request.
        Inr (Some \<lparr>VolumeId = req_Name request @ ''-id'',
                   VolumeContext = [(''zone'', ''z1'')]\<rparr>)),
      DeleteVolume = (\<lambda>serviceID request. None),
      DriverName = (\<lambda>serviceID. Inr (serviceID @ ''-driver'')),
      jsonpb_UnmarshalString = (\<lambda>raw.
        if raw = [] then Inl (ErrorString ''unexpected end of JSON input'')
        else Inr \<lparr>req_Name = raw, req_VolumeCapabilities = [''mount'']\<rparr>),
      Save = None,
      CreateInstanceDetails_fails = None,
      DeleteInstanceDetails_fails = None,
      CreateBindingDetails_fails = None,
      DeleteBindingDetails_fails = None\<rparr>"

definition empty_store :: Store where
  "empty_store = \<lparr>instances = Map.empty, bindings = Map.empty\<rparr>"

definition fresh :: Broker where
  "fresh = fst (New empty_store None)"

definition details_A :: ProvisionDetails where
  "details_A =
     \<lparr>pd_ServiceID = ''A'', pd_PlanID = ''p1'', pd_OrganizationGUID = ''o1'',
      pd_SpaceGUID = ''s1'', pd_RawParameters = ''vol1''\<rparr>"

text \<open>The broker after \<^verbatim>\<open>Provision\<close> of instance \<^verbatim>\<open>i1\<close> on service \<^verbatim>\<open>A\<close>.\<close>

definition provisioned :: Broker where
  "provisioned = fst (snd (Provision healthy fresh ''i1'' details_A))"

definition bind_with :: "(string \<times> json) list \<Rightarrow> BindDetails" where
  "bind_with kvs =
     \<lparr>bd_AppGUID = ''app1'', bd_PlanID = ''p1'', bd_ServiceID = ''A'',
      bd_RawParameters = Some (Document (JObject kvs))\<rparr>"

text \<open>The same collaborators with a store that cannot be saved.\<close>

definition disk_full :: env where
  "disk_full = healthy\<lparr>Save := Some (ErrorString ''disk full'')\<rparr>"

definition deprovision_A :: DeprovisionDetails where
  "deprovision_A = \<lparr>dd_PlanID = ''p1'', dd_ServiceID = ''A''\<rparr>"

definition unbind_A :: UnbindDetails where
  "unbind_A = \<lparr>ud_PlanID = ''p1'', ud_ServiceID = ''A''\<rparr>"

text \<open>A plugin that does not answer the probe.\<close>

definition plugin_down :: env where
  "plugin_down = healthy\<lparr>Probe := (\<lambda>serviceID. Some (ErrorString ''plugin unavailable''))\<rparr>"

text \<open>A bind request with every parameter the evaluator reads, and its result.\<close>

definition bind_custom :: BindDetails where
  "bind_custom =
     bind_with
       [(''mount'', JString ''/custom''), (''readonly'', JBool True),
        (''uid'', JString ''1000''), (''gid'', JString ''2000'')]"

definition custom_binding :: Binding where
  "custom_binding =
     \<lparr>b_Credentials = Some (JObject []),
      b_VolumeMounts =
        [\<lparr>vm_Driver = ''A-driver'',
          vm_ContainerDir = ''/custom'',
          vm_Mode = ''r'',
          vm_DeviceType = ''shared'',
          vm_Device =
            \<lparr>sd_VolumeId = ''i1-volume'',
             sd_MountConfig =
               [(''id'', ConfigString ''vol1-id''),
                (''attributes'', ConfigMap [(''zone'', ''z1'')]),
                (''binding-params'', ConfigIds (Some [(''uid'', ''1000''), (''gid'', ''2000'')]))]\<rparr>\<rparr>]\<rparr>"

text \<open>
  The request for \<^verbatim>\<open>i1\<close> again with another plan, and the record the first request
  stored.
\<close>

definition details_A_other_plan :: ProvisionDetails where
  "details_A_other_plan = details_A\<lparr>pd_PlanID := ''p2''\<rparr>"

definition instance_A :: ServiceInstance where
  "instance_A =
     \<lparr>si_ServiceID = ''A'', si_PlanID = ''p1'', si_OrganizationGUID = ''o1'',
      si_SpaceGUID = ''s1'',
      si_ServiceFingerPrint =
        Struct \<lparr>Name = ''vol1'',
                Volume = Some \<lparr>VolumeId = ''vol1-id'', VolumeContext = [(''zone'', ''z1'')]\<rparr>\<rparr>\<rparr>"

text \<open>A request for a second instance, on another service.\<close>

definition details_B :: ProvisionDetails where
  "details_B =
     \<lparr>pd_ServiceID = ''B'', pd_PlanID = ''p1'', pd_OrganizationGUID = ''o1'',
      pd_SpaceGUID = ''s1'', pd_RawParameters = ''vol2''\<rparr>"

section \<open>Unfolding the model\<close>

lemmas example_defs = healthy_def empty_store_def fresh_def details_A_def provisioned_def
  bind_with_def New_def

lemmas operation_defs = Provision_def Provision_locked_def Deprovision_def Deprovision_locked_def
  Bind_def Bind_locked_def Unbind_def Unbind_locked_def
  probeController_def critical_section_def deferred_Save_def
  instanceConflicts_def bindingConflicts_def

lemmas store_defs = RetrieveInstanceDetails_def RetrieveBindingDetails_def
  IsInstanceConflict_def IsBindingConflict_def same_identity_def
  CreateInstanceDetails_def DeleteInstanceDetails_def CreateBindingDetails_def
  DeleteBindingDetails_def

lemmas fingerprint_defs = getFingerprint_def marshal_ServiceFingerPrint_def marshal_Volume_def
  marshal_context_def

lemmas evaluator_defs = evaluateMode_def evaluateContainerPath_def evaluateId_def
  readOnlyToMode_def path_Join_def path_Clean_def DefaultContainerPath_def

section \<open>Properties of the parameter evaluator\<close>

lemma split_path_plain: "CHR ''/'' \<notin> set s \<Longrightarrow> split_path s = [s]"
  by (induction s) auto

lemma path_Join_plain:
  assumes "volId \<noteq> []" and "CHR ''/'' \<notin> set volId"
    and "volId \<noteq> ''.''" and "volId \<noteq> ''..''"
  shows "path_Join [DefaultContainerPath, volId] = ''/var/vcap/data/'' @ volId"
proof -
  have "split_path (''/var/vcap/data/'' @ volId) = [[], ''var'', ''vcap'', ''data'', volId]"
    using assms(2) by (simp add: split_path_plain)
  then show ?thesis
    using assms by (simp add: path_Join_def DefaultContainerPath_def path_Clean_def)
qed

text \<open>
  C7. Mode evaluation returns \<^verbatim>\<open>r\<close> when the map has \<^verbatim>\<open>readonly\<close> with the boolean
  true, \<^verbatim>\<open>rw\<close> when it has \<^verbatim>\<open>readonly\<close> with the boolean false, \<^verbatim>\<open>rw\<close> when the
  key is absent, and the invalid-parameters failure when the key is present with a value
  that is not a boolean.
\<close>

theorem evaluateMode_readonly:
  "(parameters ''readonly'' = Some (JBool True) \<longrightarrow> evaluateMode parameters = Returns ''r'') \<and>
   (parameters ''readonly'' = Some (JBool False) \<longrightarrow> evaluateMode parameters = Returns ''rw'') \<and>
   (parameters ''readonly'' = None \<longrightarrow> evaluateMode parameters = Returns ''rw'') \<and>
   (\<forall>v. parameters ''readonly'' = Some v \<longrightarrow> (\<forall>b. v \<noteq> JBool b) \<longrightarrow>
      evaluateMode parameters = Fails ErrRawParamsInvalid)"
  by (auto simp: evaluateMode_def readOnlyToMode_def split: json.splits)

theorem evaluateMode_readonly_witness:
  "evaluateMode [''readonly'' \<mapsto> JBool True] = Returns ''r'' \<and>
   evaluateMode [''readonly'' \<mapsto> JBool False] = Returns ''rw'' \<and>
   evaluateMode Map.empty = Returns ''rw'' \<and>
   evaluateMode [''readonly'' \<mapsto> JString ''yes''] = Fails ErrRawParamsInvalid"
  using evaluateMode_readonly [of "[''readonly'' \<mapsto> JBool True]"]
    evaluateMode_readonly [of "[''readonly'' \<mapsto> JBool False]"]
    evaluateMode_readonly [of Map.empty]
    evaluateMode_readonly [of "[''readonly'' \<mapsto> JString ''yes'']"]
  by simp

text \<open>
  C8, as the code has it. The container path is the \<^verbatim>\<open>mount\<close> parameter verbatim when
  that parameter is a non-empty string. When the parameter is absent, or is the empty
  string, the path is \<^verbatim>\<open>path.Join\<close> of the default base directory and the instance
  identifier, and that is \<^verbatim>\<open>/var/vcap/data/<instanceID>\<close> for an identifier that is not
  empty, has no slash, and is neither \<^verbatim>\<open>.\<close> nor \<^verbatim>\<open>..\<close>. (A \<^verbatim>\<open>mount\<close> value that is
  not a string is the subject of C10.)
\<close>

theorem evaluateContainerPath_mount:
  "(\<forall>s. parameters ''mount'' = Some (JString s) \<longrightarrow> s \<noteq> [] \<longrightarrow>
      evaluateContainerPath parameters instanceID = Returns s) \<and>
   (parameters ''mount'' = None \<or> parameters ''mount'' = Some (JString []) \<longrightarrow>
      evaluateContainerPath parameters instanceID =
        Returns (path_Join [DefaultContainerPath, instanceID])) \<and>
   (instanceID \<noteq> [] \<and> CHR ''/'' \<notin> set instanceID \<and> instanceID \<noteq> ''.'' \<and>
    instanceID \<noteq> ''..'' \<longrightarrow>
      path_Join [DefaultContainerPath, instanceID] = ''/var/vcap/data/'' @ instanceID)"
  by (auto simp: evaluateContainerPath_def path_Join_plain)

theorem evaluateContainerPath_mount_witness:
  "evaluateContainerPath [''mount'' \<mapsto> JString ''/custom''] ''i1'' = Returns ''/custom'' \<and>
   evaluateContainerPath Map.empty ''i1'' = Returns (path_Join [DefaultContainerPath, ''i1'']) \<and>
   evaluateContainerPath [''mount'' \<mapsto> JString []] ''i1'' =
     Returns (path_Join [DefaultContainerPath, ''i1'']) \<and>
   path_Join [DefaultContainerPath, ''i1''] = ''/var/vcap/data/i1''"
  using evaluateContainerPath_mount [of "[''mount'' \<mapsto> JString ''/custom'']" "''i1''"]
    evaluateContainerPath_mount [of Map.empty "''i1''"]
    evaluateContainerPath_mount [of "[''mount'' \<mapsto> JString []]" "''i1''"]
  by simp

text \<open>
  C8 as stated fails: with no \<^verbatim>\<open>mount\<close> parameter and the instance identifier
  \<^verbatim>\<open>..\<close> the path is \<^verbatim>\<open>/var/vcap\<close>, not \<^verbatim>\<open>/var/vcap/data/..\<close>; with an empty
  identifier it is the base directory without a slash at its end; and a \<^verbatim>\<open>mount\<close> that
  is a number gives no path at all.
\<close>

theorem evaluateContainerPath_counterexample:
  "evaluateContainerPath Map.empty ''..'' = Returns ''/var/vcap'' \<and>
   evaluateContainerPath Map.empty [] = Returns ''/var/vcap/data'' \<and>
   evaluateContainerPath [''mount'' \<mapsto> JNumber 5] ''i1'' = Panics"
  by (simp add: evaluateContainerPath_def path_Join_def DefaultContainerPath_def path_Clean_def)

text \<open>
  C10. The parameter evaluation of \<^verbatim>\<open>Bind\<close> is not total: \<^verbatim>\<open>evaluateContainerPath\<close>
  panics on every \<^verbatim>\<open>mount\<close> value that is not a string, \<^verbatim>\<open>evaluateId\<close> panics when
  \<^verbatim>\<open>uid\<close> and \<^verbatim>\<open>gid\<close> are both present and one of them is not a string, and a
  \<^verbatim>\<open>Bind\<close> call with such parameters panics instead of returning an error.
\<close>

theorem parameter_evaluation_panics:
  "(\<forall>v. parameters ''mount'' = Some v \<longrightarrow> (\<forall>s. v \<noteq> JString s) \<longrightarrow>
      evaluateContainerPath parameters instanceID = Panics) \<and>
   (\<forall>u g. parameters ''uid'' = Some u \<longrightarrow> parameters ''gid'' = Some g \<longrightarrow>
      (\<forall>s. u \<noteq> JString s) \<or> (\<forall>s. g \<noteq> JString s) \<longrightarrow> evaluateId parameters = Panics) \<and>
   fst (Bind healthy provisioned ''i1'' ''b1'' (bind_with [(''mount'', JNumber 5)])) = Panics \<and>
   fst (Bind healthy provisioned ''i1'' ''b1''
          (bind_with [(''uid'', JNumber 1000), (''gid'', JString ''1000'')])) = Panics"
proof (intro conjI allI impI)
  fix v assume "parameters ''mount'' = Some v" "\<forall>s. v \<noteq> JString s"
  then show "evaluateContainerPath parameters instanceID = Panics"
    by (cases v) (simp_all add: evaluateContainerPath_def)
next
  fix u g
  assume "parameters ''uid'' = Some u" "parameters ''gid'' = Some g"
    "(\<forall>s. u \<noteq> JString s) \<or> (\<forall>s. g \<noteq> JString s)"
  then show "evaluateId parameters = Panics"
    by (cases u; cases g) (auto simp: evaluateId_def)
next
  show "fst (Bind healthy provisioned ''i1'' ''b1'' (bind_with [(''mount'', JNumber 5)])) = Panics"
    by (simp add: example_defs operation_defs store_defs fingerprint_defs evaluator_defs)
next
  show "fst (Bind healthy provisioned ''i1'' ''b1''
          (bind_with [(''uid'', JNumber 1000), (''gid'', JString ''1000'')])) = Panics"
    by (simp add: example_defs operation_defs store_defs fingerprint_defs evaluator_defs)
qed

theorem parameter_evaluation_panics_witness:
  "evaluateContainerPath [''mount'' \<mapsto> JNumber 5] ''i1'' = Panics \<and>
   evaluateId [''uid'' \<mapsto> JNumber 1000, ''gid'' \<mapsto> JString ''1000''] = Panics"
  using parameter_evaluation_panics [of "[''mount'' \<mapsto> JNumber 5]" "''i1''"]
    parameter_evaluation_panics
      [of "[''uid'' \<mapsto> JNumber 1000, ''gid'' \<mapsto> JString ''1000'']" "''i1''"]
  by simp

section \<open>Properties of the operations\<close>

subsection \<open>The deferred save\<close>

lemma probe_events:
  "probeController w b sid = (r, b1, probed) \<Longrightarrow> EvLock \<notin> set probed \<and> EvSave \<notin> set probed"
  by (auto simp: probeController_def split: if_splits option.splits)

lemma probe_passed:
  "probeController w b sid = (None, b1, probed) \<Longrightarrow> b1 = b\<lparr>controllerProbed := True\<rparr>"
  by (auto simp: probeController_def split: if_splits option.splits)

lemma critical_section_saved:
  assumes "EvLock \<notin> set before" "EvSave \<notin> set before"
    and "critical_section before w (inner, b1) = (e, b2, tr)"
  shows "saved_on_exit w inner e tr \<and> b2 = b1"
proof -
  have d: "dropWhile (\<lambda>x. x \<noteq> EvLock) (before @ ys) = dropWhile (\<lambda>x. x \<noteq> EvLock) ys" for ys
    using assms(1) by (induction before) auto
  have t: "takeWhile (\<lambda>x. x \<noteq> EvLock) (before @ EvLock # ys) = before" for ys
    using assms(1) by (induction before) auto
  from assms(3) have "tr = before @ [EvLock, EvSave, EvUnlock]" "b2 = b1"
    and "e = (case inner of
            Returns v \<Rightarrow> (case Save w of None \<Rightarrow> Returns v | Some out \<Rightarrow> Fails out)
          | Fails err \<Rightarrow> Fails err
          | Panics \<Rightarrow> Panics)"
    by (auto simp: critical_section_def deferred_Save_def)
  then show ?thesis using assms(2) d t
    by (simp add: saved_on_exit_def)
qed

lemma Bind_saved:
  assumes "Bind w b i k d = (e, b2, tr)" "EvLock \<in> set tr"
  shows "saved_on_exit w (fst (Bind_locked w (b\<lparr>controllerProbed := True\<rparr>) i k d)) e tr"
proof -
  obtain r b1 probed where p: "probeController w b (bd_ServiceID d) = (r, b1, probed)"
    by (cases "probeController w b (bd_ServiceID d)") auto
  note pe = probe_events [OF p]
  show ?thesis
  proof (cases r)
    case (Some err)
    with assms p pe show ?thesis by (auto simp: Bind_def)
  next
    case None
    with p have b1: "b1 = b\<lparr>controllerProbed := True\<rparr>" by (simp add: probe_passed)
    from assms(1) p None
    have "critical_section probed w (Bind_locked w b1 i k d) = (e, b2, tr)"
      by (simp add: Bind_def)
    then have "critical_section probed w (fst (Bind_locked w b1 i k d), snd (Bind_locked w b1 i k d)) = (e, b2, tr)"
      by simp
    from critical_section_saved [OF _ _ this] pe b1 show ?thesis by simp
  qed
qed


lemma Unbind_saved:
  assumes "Unbind w b i k d = (e, b2, tr)" "EvLock \<in> set tr"
  shows "saved_on_exit w (fst (Unbind_locked w (b\<lparr>controllerProbed := True\<rparr>) i k)) e tr"
proof -
  obtain r b1 probed where p: "probeController w b (ud_ServiceID d) = (r, b1, probed)"
    by (cases "probeController w b (ud_ServiceID d)") auto
  note pe = probe_events [OF p]
  show ?thesis
  proof (cases r)
    case (Some err)
    with assms p pe show ?thesis by (auto simp: Unbind_def)
  next
    case None
    with p have b1: "b1 = b\<lparr>controllerProbed := True\<rparr>" by (simp add: probe_passed)
    from assms(1) p None
    have "critical_section probed w (fst (Unbind_locked w b1 i k), snd (Unbind_locked w b1 i k))
            = (e, b2, tr)"
      by (simp add: Unbind_def)
    from critical_section_saved [OF _ _ this] pe b1 show ?thesis by simp
  qed
qed

lemma Provision_saved:
  assumes "Provision w b i d = (e, b2, tr)" "EvLock \<in> set tr"
  shows "\<exists>configuration volInfo.
           jsonpb_UnmarshalString w (pd_RawParameters d) = Inr configuration \<and>
           CreateVolume w (pd_ServiceID d) configuration = Inr volInfo \<and>
           saved_on_exit w
             (fst (Provision_locked w (b\<lparr>controllerProbed := True\<rparr>) i d configuration volInfo))
             e tr"
proof -
  obtain r b1 probed where p: "probeController w b (pd_ServiceID d) = (r, b1, probed)"
    by (cases "probeController w b (pd_ServiceID d)") auto
  note pe = probe_events [OF p]
  show ?thesis
  proof (cases r)
    case (Some err)
    with assms p pe show ?thesis by (auto simp: Provision_def)
  next
    case None
    with p have b1: "b1 = b\<lparr>controllerProbed := True\<rparr>" by (simp add: probe_passed)
    from assms p None pe obtain configuration volInfo where
      c: "jsonpb_UnmarshalString w (pd_RawParameters d) = Inr configuration"
      and v: "CreateVolume w (pd_ServiceID d) configuration = Inr volInfo"
      and "critical_section (probed @ [EvCreateVolume (pd_ServiceID d) configuration]) w
             (Provision_locked w b1 i d configuration volInfo) = (e, b2, tr)"
      by (auto simp: Provision_def split: sum.splits if_splits option.splits)
    then have "critical_section (probed @ [EvCreateVolume (pd_ServiceID d) configuration]) w
             (fst (Provision_locked w b1 i d configuration volInfo),
              snd (Provision_locked w b1 i d configuration volInfo)) = (e, b2, tr)"
      by simp
    from critical_section_saved [OF _ _ this] pe b1 c v show ?thesis by auto
  qed
qed

lemma Deprovision_saved:
  assumes "Deprovision w b i d = (e, b2, tr)" "EvLock \<in> set tr"
  shows "saved_on_exit w (fst (Deprovision_locked w (b\<lparr>controllerProbed := True\<rparr>) i)) e tr"
proof -
  obtain r b1 probed where p: "probeController w b (dd_ServiceID d) = (r, b1, probed)"
    by (cases "probeController w b (dd_ServiceID d)") auto
  note pe = probe_events [OF p]
  show ?thesis
  proof (cases r)
    case (Some err)
    with assms p pe show ?thesis by (auto simp: Deprovision_def)
  next
    case None
    with p have b1: "b1 = b\<lparr>controllerProbed := True\<rparr>" by (simp add: probe_passed)
    from assms p None pe obtain configuration where
      "critical_section (probed @ [EvDeleteVolume (dd_ServiceID d) configuration]) w
             (Deprovision_locked w b1 i) = (e, b2, tr)"
      by (auto simp: Deprovision_def Let_def split: sum.splits if_splits option.splits)
    then have "critical_section (probed @ [EvDeleteVolume (dd_ServiceID d) configuration]) w
             (fst (Deprovision_locked w b1 i), snd (Deprovision_locked w b1 i)) = (e, b2, tr)"
      by simp
    from critical_section_saved [OF _ _ this] pe b1 show ?thesis by auto
  qed
qed

text \<open>
  C3. For each of \<^verbatim>\<open>Provision\<close>, \<^verbatim>\<open>Deprovision\<close>, \<^verbatim>\<open>Bind\<close> and \<^verbatim>\<open>Unbind\<close>: once
  the mutex is taken, the store is saved on every way out, whatever the logic under the
  lock returned; when that logic succeeded and the save returns an error, the error of
  the save is the error of the operation; when that logic failed, its own error is
  returned, whatever the save returns.
\<close>

theorem save_on_every_exit:
  "(\<forall>e b2 tr. Provision w b i pd = (e, b2, tr) \<longrightarrow> EvLock \<in> set tr \<longrightarrow>
      (\<exists>configuration volInfo.
          jsonpb_UnmarshalString w (pd_RawParameters pd) = Inr configuration \<and>
          CreateVolume w (pd_ServiceID pd) configuration = Inr volInfo \<and>
          saved_on_exit w
            (fst (Provision_locked w (b\<lparr>controllerProbed := True\<rparr>) i pd configuration volInfo))
            e tr)) \<and>
   (\<forall>e b2 tr. Deprovision w b i dd = (e, b2, tr) \<longrightarrow> EvLock \<in> set tr \<longrightarrow>
      saved_on_exit w (fst (Deprovision_locked w (b\<lparr>controllerProbed := True\<rparr>) i)) e tr) \<and>
   (\<forall>e b2 tr. Bind w b i k bd = (e, b2, tr) \<longrightarrow> EvLock \<in> set tr \<longrightarrow>
      saved_on_exit w (fst (Bind_locked w (b\<lparr>controllerProbed := True\<rparr>) i k bd)) e tr) \<and>
   (\<forall>e b2 tr. Unbind w b i k ud = (e, b2, tr) \<longrightarrow> EvLock \<in> set tr \<longrightarrow>
      saved_on_exit w (fst (Unbind_locked w (b\<lparr>controllerProbed := True\<rparr>) i k)) e tr)"
proof (intro conjI allI impI)
  fix e :: "ProvisionedServiceSpec outcome" and b2 tr
  assume "Provision w b i pd = (e, b2, tr)" "EvLock \<in> set tr"
  then show "\<exists>configuration volInfo.
          jsonpb_UnmarshalString w (pd_RawParameters pd) = Inr configuration \<and>
          CreateVolume w (pd_ServiceID pd) configuration = Inr volInfo \<and>
          saved_on_exit w
            (fst (Provision_locked w (b\<lparr>controllerProbed := True\<rparr>) i pd configuration volInfo))
            e tr"
    by (rule Provision_saved)
next
  fix e :: "DeprovisionServiceSpec outcome" and b2 tr
  assume "Deprovision w b i dd = (e, b2, tr)" "EvLock \<in> set tr"
  then show "saved_on_exit w (fst (Deprovision_locked w (b\<lparr>controllerProbed := True\<rparr>) i)) e tr"
    by (rule Deprovision_saved)
next
  fix e :: "Binding outcome" and b2 tr
  assume "Bind w b i k bd = (e, b2, tr)" "EvLock \<in> set tr"
  then show "saved_on_exit w (fst (Bind_locked w (b\<lparr>controllerProbed := True\<rparr>) i k bd)) e tr"
    by (rule Bind_saved)
next
  fix e :: "unit outcome" and b2 tr
  assume "Unbind w b i k ud = (e, b2, tr)" "EvLock \<in> set tr"
  then show "saved_on_exit w (fst (Unbind_locked w (b\<lparr>controllerProbed := True\<rparr>) i k)) e tr"
    by (rule Unbind_saved)
qed

theorem save_on_every_exit_witness:
  "Provision disk_full fresh ''i1'' details_A =
     (Fails (ErrorString ''disk full''), provisioned,
      [EvProbe ''A'' None, EvCreateVolume ''A'' \<lparr>req_Name = ''vol1'', req_VolumeCapabilities = [''mount'']\<rparr>,
       EvLock, EvSave, EvUnlock]) \<and>
   Deprovision healthy provisioned ''i1'' deprovision_A =
     (Returns \<lparr>ds_IsAsync = False, ds_OperationData = ''deprovision''\<rparr>,
      fresh\<lparr>controllerProbed := True\<rparr>,
      [EvDeleteVolume ''A'' \<lparr>del_VolumeId = ''vol1-id'', del_Secrets = []\<rparr>, EvLock, EvSave, EvUnlock]) \<and>
   Bind healthy fresh ''i1'' ''b1'' (bind_with []) =
     (Fails ErrInstanceDoesNotExist, fresh\<lparr>controllerProbed := True\<rparr>,
      [EvProbe ''A'' None, EvLock, EvSave, EvUnlock]) \<and>
   Unbind disk_full fresh ''i1'' ''b1'' unbind_A =
     (Fails ErrInstanceDoesNotExist, fresh\<lparr>controllerProbed := True\<rparr>,
      [EvProbe ''A'' None, EvLock, EvSave, EvUnlock]) \<and>
   saved_on_exit disk_full (Returns \<lparr>ps_IsAsync = False\<rparr>) (Fails (ErrorString ''disk full''))
     [EvProbe ''A'' None, EvCreateVolume ''A'' \<lparr>req_Name = ''vol1'', req_VolumeCapabilities = [''mount'']\<rparr>,
       EvLock, EvSave, EvUnlock] \<and>
   saved_on_exit healthy (Returns \<lparr>ds_IsAsync = False, ds_OperationData = ''deprovision''\<rparr>)
     (Returns \<lparr>ds_IsAsync = False, ds_OperationData = ''deprovision''\<rparr>)
     [EvDeleteVolume ''A'' \<lparr>del_VolumeId = ''vol1-id'', del_Secrets = []\<rparr>, EvLock, EvSave, EvUnlock] \<and>
   saved_on_exit healthy (Fails ErrInstanceDoesNotExist) (Fails ErrInstanceDoesNotExist :: Binding outcome)
     [EvProbe ''A'' None, EvLock, EvSave, EvUnlock] \<and>
   saved_on_exit disk_full (Fails ErrInstanceDoesNotExist) (Fails ErrInstanceDoesNotExist :: unit outcome)
     [EvProbe ''A'' None, EvLock, EvSave, EvUnlock]"
proof -
  have p: "Provision disk_full fresh ''i1'' details_A =
     (Fails (ErrorString ''disk full''), provisioned,
      [EvProbe ''A'' None, EvCreateVolume ''A'' \<lparr>req_Name = ''vol1'', req_VolumeCapabilities = [''mount'']\<rparr>,
       EvLock, EvSave, EvUnlock])"
    by (simp add: example_defs disk_full_def deprovision_A_def unbind_A_def operation_defs store_defs)
  have d: "Deprovision healthy provisioned ''i1'' deprovision_A =
     (Returns \<lparr>ds_IsAsync = False, ds_OperationData = ''deprovision''\<rparr>,
      fresh\<lparr>controllerProbed := True\<rparr>,
      [EvDeleteVolume ''A'' \<lparr>del_VolumeId = ''vol1-id'', del_Secrets = []\<rparr>, EvLock, EvSave, EvUnlock])"
    by (simp add: example_defs deprovision_A_def operation_defs store_defs fingerprint_defs)
  have b: "Bind healthy fresh ''i1'' ''b1'' (bind_with []) =
     (Fails ErrInstanceDoesNotExist, fresh\<lparr>controllerProbed := True\<rparr>,
      [EvProbe ''A'' None, EvLock, EvSave, EvUnlock])"
    by (simp add: example_defs disk_full_def deprovision_A_def unbind_A_def operation_defs store_defs)
  have u: "Unbind disk_full fresh ''i1'' ''b1'' unbind_A =
     (Fails ErrInstanceDoesNotExist, fresh\<lparr>controllerProbed := True\<rparr>,
      [EvProbe ''A'' None, EvLock, EvSave, EvUnlock])"
    by (simp add: example_defs disk_full_def deprovision_A_def unbind_A_def operation_defs store_defs)
  have pl: "fst (Provision_locked disk_full (fresh\<lparr>controllerProbed := True\<rparr>) ''i1'' details_A
              \<lparr>req_Name = ''vol1'', req_VolumeCapabilities = [''mount'']\<rparr>
              (Some \<lparr>VolumeId = ''vol1-id'', VolumeContext = [(''zone'', ''z1'')]\<rparr>)) = Returns \<lparr>ps_IsAsync = False\<rparr>"
    by (simp add: example_defs disk_full_def deprovision_A_def unbind_A_def operation_defs store_defs)
  have dl: "fst (Deprovision_locked healthy (provisioned\<lparr>controllerProbed := True\<rparr>) ''i1'')
      = Returns \<lparr>ds_IsAsync = False, ds_OperationData = ''deprovision''\<rparr>"
    by (simp add: example_defs disk_full_def deprovision_A_def unbind_A_def operation_defs store_defs)
  have bl: "fst (Bind_locked healthy (fresh\<lparr>controllerProbed := True\<rparr>) ''i1'' ''b1'' (bind_with []))
      = Fails ErrInstanceDoesNotExist"
    by (simp add: example_defs disk_full_def deprovision_A_def unbind_A_def operation_defs store_defs)
  have ul: "fst (Unbind_locked disk_full (fresh\<lparr>controllerProbed := True\<rparr>) ''i1'' ''b1'')
      = Fails ErrInstanceDoesNotExist"
    by (simp add: example_defs disk_full_def deprovision_A_def unbind_A_def operation_defs store_defs)
  have c: "jsonpb_UnmarshalString disk_full (pd_RawParameters details_A) = Inr \<lparr>req_Name = ''vol1'', req_VolumeCapabilities = [''mount'']\<rparr>"
    "\<And>c. CreateVolume disk_full (pd_ServiceID details_A) c = Inr (Some \<lparr>VolumeId = req_Name c @ ''-id'', VolumeContext = [(''zone'', ''z1'')]\<rparr>)"
    by (simp_all add: example_defs disk_full_def)
  note t =
    save_on_every_exit [where w = disk_full and b = fresh and i = "''i1''" and pd = details_A]
    save_on_every_exit [where w = healthy and b = provisioned and i = "''i1''" and dd = deprovision_A]
    save_on_every_exit [where w = healthy and b = fresh and i = "''i1''" and k = "''b1''"
      and bd = "bind_with []"]
    save_on_every_exit [where w = disk_full and b = fresh and i = "''i1''" and k = "''b1''"
      and ud = unbind_A]
  show ?thesis
    using t p d b u pl dl bl ul c by auto
qed

subsection \<open>Deprovision of an instance that is not stored\<close>

text \<open>
  C4, as the code has it. A \<^verbatim>\<open>Deprovision\<close> call for an instance identifier without a
  stored record (identifier, plan and service non-empty) issues no controller RPC, never
  takes the lock and leaves the store alone. With the latch set it returns the
  not-found error and issues no plugin RPC at all. With the latch unset it goes through
  the probe gate first: when the registry resolves the identity client the probe RPC is
  issued, and the call returns not-found when the probe succeeds and the error of the
  probe when it fails; when the registry fails, that error is returned.
\<close>

theorem Deprovision_absent:
  assumes "RetrieveInstanceDetails (store b) instanceID = None"
    and "instanceID \<noteq> []" and "dd_PlanID details \<noteq> []" and "dd_ServiceID details \<noteq> []"
  shows "Deprovision w b instanceID details =
     (if controllerProbed b then (Fails ErrInstanceDoesNotExist, b, [])
      else
        (case IdentityClient w (dd_ServiceID details) of
           Some err \<Rightarrow> (Fails err, b, [])
         | None \<Rightarrow>
             (case Probe w (dd_ServiceID details) of
                Some err \<Rightarrow> (Fails err, b, [EvProbe (dd_ServiceID details) (Some err)])
              | None \<Rightarrow>
                  (Fails ErrInstanceDoesNotExist, b\<lparr>controllerProbed := True\<rparr>,
                   [EvProbe (dd_ServiceID details) None]))))"
  using assms
  by (simp add: Deprovision_def probeController_def RetrieveInstanceDetails_def
      split: option.splits)

theorem Deprovision_absent_witness:
  "Deprovision healthy (fresh\<lparr>controllerProbed := True\<rparr>) ''i1'' deprovision_A =
     (Fails ErrInstanceDoesNotExist, fresh\<lparr>controllerProbed := True\<rparr>, []) \<and>
   Deprovision healthy fresh ''i1'' deprovision_A =
     (Fails ErrInstanceDoesNotExist, fresh\<lparr>controllerProbed := True\<rparr>, [EvProbe ''A'' None])"
proof -
  have h: "RetrieveInstanceDetails (store (fresh\<lparr>controllerProbed := True\<rparr>)) ''i1'' = None"
    "RetrieveInstanceDetails (store fresh) ''i1'' = None"
    "''i1'' \<noteq> []" "dd_PlanID deprovision_A \<noteq> []" "dd_ServiceID deprovision_A \<noteq> []"
    by (simp_all add: example_defs deprovision_A_def RetrieveInstanceDetails_def)
  show ?thesis
    using Deprovision_absent [OF h(1) h(3) h(4) h(5), of healthy]
      Deprovision_absent [OF h(2) h(3) h(4) h(5), of healthy]
    by (simp add: example_defs deprovision_A_def)
qed

text \<open>
  C4 as stated fails on a broker that has not probed yet: the call for an unknown
  instance issues the probe RPC, and when the plugin does not answer it returns the
  plugin's error, not the not-found error.
\<close>

theorem Deprovision_absent_counterexample:
  "RetrieveInstanceDetails (store fresh) ''i1'' = None \<and>
   snd (snd (Deprovision healthy fresh ''i1'' deprovision_A)) = [EvProbe ''A'' None] \<and>
   Deprovision plugin_down fresh ''i1'' deprovision_A =
     (Fails (ErrorString ''plugin unavailable''), fresh,
      [EvProbe ''A'' (Some (ErrorString ''plugin unavailable''))])"
  by (simp add: example_defs deprovision_A_def plugin_down_def operation_defs store_defs)

subsection \<open>The result of Bind\<close>

lemma Bind_locked_result:
  assumes "Bind_locked w b instanceID bindingID bindDetails = (Returns binding, b2)"
  shows "\<exists>instanceDetails fingerprint volume params ids.
     RetrieveInstanceDetails (store b) instanceID = Some instanceDetails \<and>
     getFingerprint (si_ServiceFingerPrint instanceDetails) = Inr fingerprint \<and>
     Volume fingerprint = Some volume \<and>
     (case bd_RawParameters bindDetails of
        None \<Rightarrow> Inr Map.empty
      | Some raw \<Rightarrow> unmarshal_parameters raw) = Inr params \<and>
     evaluateId params = Returns ids \<and>
     b_Credentials binding = Some (JObject []) \<and>
     (\<exists>m. b_VolumeMounts binding = [m] \<and>
        evaluateContainerPath params instanceID = Returns (vm_ContainerDir m) \<and>
        evaluateMode params = Returns (vm_Mode m) \<and>
        DriverName w (bd_ServiceID bindDetails) = Inr (vm_Driver m) \<and>
        vm_DeviceType m = ''shared'' \<and>
        sd_VolumeId (vm_Device m) = instanceID @ ''-volume'' \<and>
        sd_MountConfig (vm_Device m) =
          [(''id'', ConfigString (VolumeId volume)),
           (''attributes'', ConfigMap (VolumeContext volume)),
           (''binding-params'', ConfigIds ids)])"
  using assms
  by (auto simp: Bind_locked_def split: option.splits sum.splits if_splits outcome.splits)

text \<open>
  C6. A successful \<^verbatim>\<open>Bind\<close> returns credentials that are not nil (the empty struct)
  and exactly one volume mount. Its container directory and mode are what the evaluators
  derive from the decoded parameters, its driver is the registry's driver name for the
  service, its device type is shared, the volume handle of its device is the instance
  identifier followed by \<^verbatim>\<open>-volume\<close>, and the mount configuration carries the volume id
  and the context attributes of the stored fingerprint and the derived uid and gid.
\<close>

theorem Bind_result:
  assumes "Bind w b instanceID bindingID bindDetails = (Returns binding, b2, tr)"
  shows "\<exists>instanceDetails fingerprint volume params ids.
     RetrieveInstanceDetails (store b) instanceID = Some instanceDetails \<and>
     getFingerprint (si_ServiceFingerPrint instanceDetails) = Inr fingerprint \<and>
     Volume fingerprint = Some volume \<and>
     (case bd_RawParameters bindDetails of
        None \<Rightarrow> Inr Map.empty
      | Some raw \<Rightarrow> unmarshal_parameters raw) = Inr params \<and>
     evaluateId params = Returns ids \<and>
     b_Credentials binding = Some (JObject []) \<and>
     (\<exists>m. b_VolumeMounts binding = [m] \<and>
        evaluateContainerPath params instanceID = Returns (vm_ContainerDir m) \<and>
        evaluateMode params = Returns (vm_Mode m) \<and>
        DriverName w (bd_ServiceID bindDetails) = Inr (vm_Driver m) \<and>
        vm_DeviceType m = ''shared'' \<and>
        sd_VolumeId (vm_Device m) = instanceID @ ''-volume'' \<and>
        sd_MountConfig (vm_Device m) =
          [(''id'', ConfigString (VolumeId volume)),
           (''attributes'', ConfigMap (VolumeContext volume)),
           (''binding-params'', ConfigIds ids)])"
proof -
  obtain r b1 probed where p: "probeController w b (bd_ServiceID bindDetails) = (r, b1, probed)"
    by (cases "probeController w b (bd_ServiceID bindDetails)") auto
  show ?thesis
  proof (cases r)
    case (Some err)
    with assms p show ?thesis by (simp add: Bind_def)
  next
    case None
    with p have b1: "b1 = b\<lparr>controllerProbed := True\<rparr>" by (simp add: probe_passed)
    from assms p None obtain b3 where
      "Bind_locked w b1 instanceID bindingID bindDetails = (Returns binding, b3)"
      by (cases "Bind_locked w b1 instanceID bindingID bindDetails")
         (auto simp: Bind_def critical_section_def deferred_Save_def
               split: outcome.splits option.splits)
    from Bind_locked_result [OF this] b1 show ?thesis
      by (simp add: RetrieveInstanceDetails_def)
  qed
qed

theorem Bind_result_witness:
  "Bind healthy provisioned ''i1'' ''b1'' bind_custom =
     (Returns custom_binding,
      provisioned\<lparr>store := (store provisioned)\<lparr>bindings := [''b1'' \<mapsto> bind_custom]\<rparr>\<rparr>,
      [EvLock, EvSave, EvUnlock]) \<and>
   b_Credentials custom_binding = Some (JObject []) \<and>
   length (b_VolumeMounts custom_binding) = 1"
proof -
  have h: "Bind healthy provisioned ''i1'' ''b1'' bind_custom =
     (Returns custom_binding,
      provisioned\<lparr>store := (store provisioned)\<lparr>bindings := [''b1'' \<mapsto> bind_custom]\<rparr>\<rparr>,
      [EvLock, EvSave, EvUnlock])"
    by (simp add: example_defs bind_custom_def custom_binding_def operation_defs store_defs
        fingerprint_defs evaluator_defs)
  from Bind_result [OF h] show ?thesis
    using h by auto
qed

subsection \<open>Provision of an instance that is stored already\<close>

lemma Provision_locked_conflict:
  assumes "instances (store b) instanceID = Some existing" and "differs details existing"
  shows "Provision_locked w b instanceID details configuration volInfo =
           (Fails ErrInstanceAlreadyExists, b)"
  using assms
  by (auto simp: Provision_locked_def instanceConflicts_def IsInstanceConflict_def
      same_identity_def differs_def Let_def)

lemma probe_store:
  "probeController w b sid = (r, b1, probed) \<Longrightarrow> store b1 = store b"
  by (auto simp: probeController_def split: if_splits option.splits)

text \<open>
  C2. When the instance identifier already has a record and the request differs from it
  in service, plan, organization or space, \<^verbatim>\<open>Provision\<close> leaves the store as it was (no
  record is created or overwritten, the stored record stays), never succeeds, and returns
  the "instance already exists" error once the call has come to the record check, that
  is, when the probe gate, the decoding and validation of the parameters, the registry
  and the create-volume RPC have not failed before.
\<close>

theorem Provision_conflict:
  assumes "instances (store b) instanceID = Some existing"
    and "differs details existing"
  shows "store (fst (snd (Provision w b instanceID details))) = store b \<and>
     (\<exists>err. fst (Provision w b instanceID details) = Fails err) \<and>
     (\<forall>configuration volInfo.
        fst (probeController w b (pd_ServiceID details)) = None \<longrightarrow>
        jsonpb_UnmarshalString w (pd_RawParameters details) = Inr configuration \<longrightarrow>
        req_Name configuration \<noteq> [] \<longrightarrow>
        req_VolumeCapabilities configuration \<noteq> [] \<longrightarrow>
        ControllerClient w (pd_ServiceID details) = None \<longrightarrow>
        CreateVolume w (pd_ServiceID details) configuration = Inr volInfo \<longrightarrow>
        fst (Provision w b instanceID details) = Fails ErrInstanceAlreadyExists)"
proof -
  obtain r b1 probed where p: "probeController w b (pd_ServiceID details) = (r, b1, probed)"
    by (cases "probeController w b (pd_ServiceID details)") auto
  from probe_store [OF p] assms(1)
  have i: "instances (store b1) instanceID = Some existing" and s: "store b1 = store b"
    by simp_all
  note c = Provision_locked_conflict [OF i assms(2)]
  from p s show ?thesis
    by (auto simp: Provision_def c critical_section_def deferred_Save_def
        split: option.splits sum.splits if_splits)
qed

theorem Provision_conflict_witness:
  "instances (store provisioned) ''i1'' = Some instance_A \<and>
   differs details_A_other_plan instance_A \<and>
   fst (probeController healthy provisioned ''A'') = None \<and>
   jsonpb_UnmarshalString healthy ''vol1'' =
     Inr \<lparr>req_Name = ''vol1'', req_VolumeCapabilities = [''mount'']\<rparr> \<and>
   ControllerClient healthy ''A'' = None \<and>
   CreateVolume healthy ''A'' \<lparr>req_Name = ''vol1'', req_VolumeCapabilities = [''mount'']\<rparr> =
     Inr (Some \<lparr>VolumeId = ''vol1-id'', VolumeContext = [(''zone'', ''z1'')]\<rparr>) \<and>
   fst (Provision healthy provisioned ''i1'' details_A_other_plan) =
     Fails ErrInstanceAlreadyExists \<and>
   store (fst (snd (Provision healthy provisioned ''i1'' details_A_other_plan))) =
     store provisioned \<and>
   instances (store (fst (snd (Provision healthy provisioned ''i1'' details_A_other_plan)))) ''i1'' =
     Some instance_A"
proof -
  have h1: "instances (store provisioned) ''i1'' = Some instance_A"
    by (simp add: example_defs instance_A_def operation_defs store_defs)
  have h2: "differs details_A_other_plan instance_A"
    by (simp add: differs_def details_A_other_plan_def details_A_def instance_A_def)
  have h3: "fst (probeController healthy provisioned ''A'') = None"
    by (simp add: example_defs operation_defs store_defs)
  have h4: "jsonpb_UnmarshalString healthy ''vol1'' =
     Inr \<lparr>req_Name = ''vol1'', req_VolumeCapabilities = [''mount'']\<rparr>"
    "ControllerClient healthy ''A'' = None"
    "CreateVolume healthy ''A'' \<lparr>req_Name = ''vol1'', req_VolumeCapabilities = [''mount'']\<rparr> =
     Inr (Some \<lparr>VolumeId = ''vol1-id'', VolumeContext = [(''zone'', ''z1'')]\<rparr>)"
    by (simp_all add: healthy_def)
  have d: "pd_ServiceID details_A_other_plan = ''A''"
    "pd_RawParameters details_A_other_plan = ''vol1''"
    by (simp_all add: details_A_other_plan_def details_A_def)
  from Provision_conflict [OF h1 h2, of healthy] h1 h2 h3 h4 d show ?thesis
    by simp
qed

text \<open>
  C9. After a successful \<^verbatim>\<open>Provision\<close>, a second one for the same identifier with the
  same details succeeds as well, provided the collaborators answer again: it is not a
  conflict, the identifier still has one record with the same four identifiers, no other
  identifier gains or loses a record, and the bindings are untouched.
\<close>

theorem Provision_idempotent:
  assumes "Provision w b instanceID details = (Returns spec, b1, tr)"
    and "jsonpb_UnmarshalString w2 (pd_RawParameters details) = Inr configuration"
    and "req_Name configuration \<noteq> []"
    and "req_VolumeCapabilities configuration \<noteq> []"
    and "ControllerClient w2 (pd_ServiceID details) = None"
    and "CreateVolume w2 (pd_ServiceID details) configuration = Inr volInfo"
    and "CreateInstanceDetails_fails w2 = None"
    and "Save w2 = None"
  shows "spec = \<lparr>ps_IsAsync = False\<rparr> \<and>
     fst (Provision w2 b1 instanceID details) = Returns \<lparr>ps_IsAsync = False\<rparr> \<and>
     (\<exists>first second.
        instances (store b1) instanceID = Some first \<and>
        instances (store (fst (snd (Provision w2 b1 instanceID details)))) instanceID = Some second \<and>
        same_identity first second \<and>
        si_ServiceFingerPrint second = Struct \<lparr>Name = req_Name configuration, Volume = volInfo\<rparr>) \<and>
     dom (instances (store (fst (snd (Provision w2 b1 instanceID details))))) =
       dom (instances (store b1)) \<and>
     (\<forall>other. other \<noteq> instanceID \<longrightarrow>
        instances (store (fst (snd (Provision w2 b1 instanceID details)))) other =
          instances (store b1) other) \<and>
     bindings (store (fst (snd (Provision w2 b1 instanceID details)))) = bindings (store b1)"
proof -
  obtain r b0 probed where p: "probeController w b (pd_ServiceID details) = (r, b0, probed)"
    by (cases "probeController w b (pd_ServiceID details)") auto
  from assms(1) p obtain c1 v1 where
    f: "Provision_locked w b0 instanceID details c1 v1 = (Returns spec, b1)"
    and l: "controllerProbed b0"
    by (auto simp: Provision_def critical_section_def deferred_Save_def probeController_def
        split: option.splits sum.splits if_splits outcome.splits prod.splits)
  from f have spec: "spec = \<lparr>ps_IsAsync = False\<rparr>"
    and b1: "controllerProbed b1 = controllerProbed b0"
    and first: "instances (store b1) instanceID =
      Some \<lparr>si_ServiceID = pd_ServiceID details,
             si_PlanID = pd_PlanID details,
             si_OrganizationGUID = pd_OrganizationGUID details,
             si_SpaceGUID = pd_SpaceGUID details,
             si_ServiceFingerPrint = Struct \<lparr>Name = req_Name c1, Volume = v1\<rparr>\<rparr>"
    by (auto simp: Provision_locked_def Let_def CreateInstanceDetails_def
        split: if_splits option.splits sum.splits)
  from l b1 have latch: "controllerProbed b1" by simp
  have second: "Provision w2 b1 instanceID details =
     (Returns \<lparr>ps_IsAsync = False\<rparr>,
      b1\<lparr>store := (store b1)\<lparr>instances := (instances (store b1))(instanceID \<mapsto>
        \<lparr>si_ServiceID = pd_ServiceID details,
         si_PlanID = pd_PlanID details,
         si_OrganizationGUID = pd_OrganizationGUID details,
         si_SpaceGUID = pd_SpaceGUID details,
         si_ServiceFingerPrint = Struct \<lparr>Name = req_Name configuration, Volume = volInfo\<rparr>\<rparr>)\<rparr>\<rparr>,
      [EvCreateVolume (pd_ServiceID details) configuration, EvLock, EvSave, EvUnlock])"
    using assms(2-8) latch first
    by (simp add: Provision_def probeController_def critical_section_def deferred_Save_def
        Provision_locked_def instanceConflicts_def IsInstanceConflict_def same_identity_def
        CreateInstanceDetails_def Let_def)
  show ?thesis
    using spec first by (auto simp: second same_identity_def)
qed

theorem Provision_idempotent_witness:
  "Provision healthy fresh ''i1'' details_A =
     (Returns \<lparr>ps_IsAsync = False\<rparr>, provisioned,
      [EvProbe ''A'' None,
       EvCreateVolume ''A'' \<lparr>req_Name = ''vol1'', req_VolumeCapabilities = [''mount'']\<rparr>,
       EvLock, EvSave, EvUnlock]) \<and>
   jsonpb_UnmarshalString healthy (pd_RawParameters details_A) =
     Inr \<lparr>req_Name = ''vol1'', req_VolumeCapabilities = [''mount'']\<rparr> \<and>
   ControllerClient healthy (pd_ServiceID details_A) = None \<and>
   CreateVolume healthy (pd_ServiceID details_A)
       \<lparr>req_Name = ''vol1'', req_VolumeCapabilities = [''mount'']\<rparr> =
     Inr (Some \<lparr>VolumeId = ''vol1-id'', VolumeContext = [(''zone'', ''z1'')]\<rparr>) \<and>
   CreateInstanceDetails_fails healthy = None \<and>
   Save healthy = None \<and>
   fst (Provision healthy provisioned ''i1'' details_A) = Returns \<lparr>ps_IsAsync = False\<rparr> \<and>
   dom (instances (store (fst (snd (Provision healthy provisioned ''i1'' details_A))))) =
     dom (instances (store provisioned)) \<and>
   bindings (store (fst (snd (Provision healthy provisioned ''i1'' details_A)))) =
     bindings (store provisioned)"
proof -
  have h1: "Provision healthy fresh ''i1'' details_A =
     (Returns \<lparr>ps_IsAsync = False\<rparr>, provisioned,
      [EvProbe ''A'' None,
       EvCreateVolume ''A'' \<lparr>req_Name = ''vol1'', req_VolumeCapabilities = [''mount'']\<rparr>,
       EvLock, EvSave, EvUnlock])"
    by (simp add: example_defs operation_defs store_defs)
  have h2: "jsonpb_UnmarshalString healthy (pd_RawParameters details_A) =
     Inr \<lparr>req_Name = ''vol1'', req_VolumeCapabilities = [''mount'']\<rparr>"
    and h3: "req_Name \<lparr>req_Name = ''vol1'', req_VolumeCapabilities = [''mount'']\<rparr> \<noteq> []"
    and h4: "req_VolumeCapabilities \<lparr>req_Name = ''vol1'', req_VolumeCapabilities = [''mount'']\<rparr>
               \<noteq> []"
    and h5: "ControllerClient healthy (pd_ServiceID details_A) = None"
    and h6: "CreateVolume healthy (pd_ServiceID details_A)
       \<lparr>req_Name = ''vol1'', req_VolumeCapabilities = [''mount'']\<rparr> =
     Inr (Some \<lparr>VolumeId = ''vol1-id'', VolumeContext = [(''zone'', ''z1'')]\<rparr>)"
    and h7: "CreateInstanceDetails_fails healthy = None"
    and h8: "Save healthy = None"
    by (simp_all add: healthy_def details_A_def)
  from Provision_idempotent [OF h1 h2 h3 h4 h5 h6 h7 h8] h1 h2 h5 h6 h7 h8
  show ?thesis by simp
qed

subsection \<open>The fingerprint in either representation\<close>

lemma unmarshal_entries_marshal:
  "unmarshal_entries (map (\<lambda>(k, v). (k, JString v)) m) = Inr m"
  by (induction m) auto

lemma unmarshal_Volume_marshal: "unmarshal_Volume (Some (marshal_Volume v)) = Inr (Some v)"
  by (cases v) (simp add: marshal_Volume_def marshal_context_def unmarshal_entries_marshal)

lemma json_Unmarshal_marshal: "json_Unmarshal (marshal_ServiceFingerPrint f) = Inr f"
proof (cases f)
  case (fields n v)
  then show ?thesis
    by (cases v) (simp_all add: marshal_ServiceFingerPrint_def unmarshal_Volume_marshal)
qed

lemma getFingerprint_Pointer: "getFingerprint (Pointer f) = Inr f"
  by (simp add: getFingerprint_def)

lemma getFingerprint_Struct: "getFingerprint (Struct f) = Inr f"
  by (simp add: getFingerprint_def json_Unmarshal_marshal)

lemma getFingerprint_Generic: "getFingerprint (Generic (marshal_ServiceFingerPrint f)) = Inr f"
  by (simp add: getFingerprint_def json_Unmarshal_marshal)

lemma Bind_locked_same:
  assumes "getFingerprint r1 = getFingerprint r2"
  shows "fst (Bind_locked w (stored_as b i inst r1) j k d) =
         fst (Bind_locked w (stored_as b i inst r2) j k d)"
  using assms
  by (cases "j = i")
     (simp_all add: stored_as_def Bind_locked_def
        RetrieveInstanceDetails_def CreateBindingDetails_def bindingConflicts_def
        IsBindingConflict_def Let_def
        split: option.split sum.split outcome.split)

lemma stored_as_latch:
  "(stored_as b i inst r)\<lparr>controllerProbed := True\<rparr> = stored_as (b\<lparr>controllerProbed := True\<rparr>) i inst r"
  by (simp add: stored_as_def)

lemma observed_critical_section:
  "observed (critical_section before w r) =
     (fst (deferred_Save w r), before @ [EvLock, EvSave, EvUnlock])"
  by (cases r) (simp add: observed_def critical_section_def deferred_Save_def)

lemma fst_deferred_Save:
  "fst r1 = fst r2 \<Longrightarrow> fst (deferred_Save w r1) = fst (deferred_Save w r2)"
  by (cases r1; cases r2) (simp add: deferred_Save_def)

lemma probe_stored_as:
  "probeController w (stored_as b i inst r) sid =
     (case probeController w b sid of (e, b1, probed) \<Rightarrow> (e, stored_as b1 i inst r, probed))"
  by (simp add: probeController_def stored_as_def split: option.splits)

lemma Bind_same:
  assumes "getFingerprint r1 = getFingerprint r2"
  shows "observed (Bind w (stored_as b i inst r1) j k d) =
         observed (Bind w (stored_as b i inst r2) j k d)"
proof -
  obtain e b1 probed where p: "probeController w b (bd_ServiceID d) = (e, b1, probed)"
    by (cases "probeController w b (bd_ServiceID d)") auto
  show ?thesis
  proof (cases e)
    case None
    with p show ?thesis
      using fst_deferred_Save [OF Bind_locked_same [OF assms, of w b1 i inst j k d], of w]
      by (simp add: Bind_def probe_stored_as observed_critical_section)
  next
    case (Some err)
    with p show ?thesis by (simp add: Bind_def probe_stored_as observed_def)
  qed
qed

lemma observed_triple: "observed (e, b, tr) = (e, tr)"
  by (simp add: observed_def)

lemma Retrieve_stored_as:
  "RetrieveInstanceDetails (store (stored_as b i inst r)) j =
     (if j = i then Some (inst\<lparr>si_ServiceFingerPrint := r\<rparr>)
      else RetrieveInstanceDetails (store b) j)"
  by (simp add: stored_as_def RetrieveInstanceDetails_def)

lemma Deprovision_locked_outcome:
  "fst (Deprovision_locked w b j) = fst (Deprovision_locked w b' j)"
  by (simp add: Deprovision_locked_def DeleteInstanceDetails_def split: option.split)

lemma Deprovision_same:
  assumes "getFingerprint r1 = getFingerprint r2"
  shows "observed (Deprovision w (stored_as b i inst r1) j d) =
         observed (Deprovision w (stored_as b i inst r2) j d)"
proof -
  obtain e b1 probed where p: "probeController w b (dd_ServiceID d) = (e, b1, probed)"
    by (cases "probeController w b (dd_ServiceID d)") auto
  note l = fst_deferred_Save [OF Deprovision_locked_outcome
      [of w "stored_as b1 i inst r1" j "stored_as b1 i inst r2"], of w]
  show ?thesis
  proof (cases e)
    case None
    with p assms l show ?thesis
      by (cases "j = i")
         (simp_all add: Deprovision_def probe_stored_as Retrieve_stored_as observed_triple
            observed_critical_section Let_def
            split: option.split sum.split)
  next
    case (Some err)
    with p show ?thesis by (simp add: Deprovision_def probe_stored_as observed_triple)
  qed
qed

text \<open>
  C5. Reconstruction succeeds on each representation of a fingerprint \<open>f\<close>: a pointer
  to it is returned as it is; the struct, and the generic document that marshalling it
  gives, are encoded and decoded again into \<open>f\<close> itself. So \<^verbatim>\<open>Deprovision\<close> and
  \<^verbatim>\<open>Bind\<close> return the same result and issue the same events whichever representation
  the store holds.
\<close>

theorem getFingerprint_representations:
  "getFingerprint (Pointer f) = Inr f \<and>
   getFingerprint (Struct f) = Inr f \<and>
   getFingerprint (Generic (marshal_ServiceFingerPrint f)) = Inr f \<and>
   json_Marshal (Struct f) = Inr (marshal_ServiceFingerPrint f) \<and>
   observed (Deprovision w (stored_as b i inst (Generic (marshal_ServiceFingerPrint f))) j dd) =
     observed (Deprovision w (stored_as b i inst (Pointer f)) j dd) \<and>
   observed (Deprovision w (stored_as b i inst (Struct f)) j dd) =
     observed (Deprovision w (stored_as b i inst (Pointer f)) j dd) \<and>
   observed (Bind w (stored_as b i inst (Generic (marshal_ServiceFingerPrint f))) j k bd) =
     observed (Bind w (stored_as b i inst (Pointer f)) j k bd) \<and>
   observed (Bind w (stored_as b i inst (Struct f)) j k bd) =
     observed (Bind w (stored_as b i inst (Pointer f)) j k bd)"
proof -
  have g: "getFingerprint (Generic (marshal_ServiceFingerPrint f)) = getFingerprint (Pointer f)"
    and s: "getFingerprint (Struct f) = getFingerprint (Pointer f)"
    by (simp_all add: getFingerprint_Pointer getFingerprint_Struct getFingerprint_Generic)
  show ?thesis
    using Deprovision_same [OF g] Deprovision_same [OF s] Bind_same [OF g] Bind_same [OF s]
    by (simp add: getFingerprint_Pointer getFingerprint_Struct getFingerprint_Generic)
qed

subsection \<open>The probe gate\<close>

lemma critical_section_events:
  "critical_section before w r = (e, b2, tr) \<Longrightarrow>
     tr = before @ [EvLock, EvSave, EvUnlock] \<and> b2 = snd r"
  by (cases r) (auto simp: critical_section_def deferred_Save_def)

lemma Provision_locked_latch:
  "controllerProbed (snd (Provision_locked w b i d c v)) = controllerProbed b"
  by (simp add: Provision_locked_def Let_def split: sum.splits)

lemma Deprovision_locked_latch:
  "controllerProbed (snd (Deprovision_locked w b i)) = controllerProbed b"
  by (simp add: Deprovision_locked_def split: sum.splits)

lemma Bind_locked_latch:
  "controllerProbed (snd (Bind_locked w b i k d)) = controllerProbed b"
  by (simp add: Bind_locked_def split: option.splits sum.splits outcome.splits)

lemma Unbind_locked_latch:
  "controllerProbed (snd (Unbind_locked w b i k)) = controllerProbed b"
  by (simp add: Unbind_locked_def split: option.splits sum.splits)

lemma Provision_after_gate: "after_gate w b (pd_ServiceID d) (forget (Provision w b i d))"
proof -
  obtain r b1 probed where p: "probeController w b (pd_ServiceID d) = (r, b1, probed)"
    by (cases "probeController w b (pd_ServiceID d)") auto
  show ?thesis
  proof (cases r)
    case (Some err)
    with p show ?thesis by (simp add: after_gate_def Provision_def forget_def)
  next
    case None
    obtain e b2 tr where q: "Provision w b i d = (e, b2, tr)"
      by (cases "Provision w b i d") auto
    from q p None have "(\<exists>rest. tr = probed @ rest \<and> list_all (\<lambda>x. \<not> is_probe x) rest) \<and>
        controllerProbed b2 = controllerProbed b1"
      by (auto simp: Provision_def Provision_locked_latch
          split: sum.splits option.splits if_splits dest!: critical_section_events)
    with p None q show ?thesis by (simp add: after_gate_def forget_def)
  qed
qed


lemma Deprovision_after_gate: "after_gate w b (dd_ServiceID d) (forget (Deprovision w b i d))"
proof -
  obtain r b1 probed where p: "probeController w b (dd_ServiceID d) = (r, b1, probed)"
    by (cases "probeController w b (dd_ServiceID d)") auto
  show ?thesis
  proof (cases r)
    case (Some err)
    with p show ?thesis by (simp add: after_gate_def Deprovision_def forget_def)
  next
    case None
    obtain e b2 tr where q: "Deprovision w b i d = (e, b2, tr)"
      by (cases "Deprovision w b i d") auto
    from q p None have "(\<exists>rest. tr = probed @ rest \<and> list_all (\<lambda>x. \<not> is_probe x) rest) \<and>
        controllerProbed b2 = controllerProbed b1"
      by (auto simp: Deprovision_def Deprovision_locked_latch Let_def
          split: sum.splits option.splits if_splits dest!: critical_section_events)
    with p None q show ?thesis by (simp add: after_gate_def forget_def)
  qed
qed

lemma Bind_after_gate: "after_gate w b (bd_ServiceID d) (forget (Bind w b i k d))"
proof -
  obtain r b1 probed where p: "probeController w b (bd_ServiceID d) = (r, b1, probed)"
    by (cases "probeController w b (bd_ServiceID d)") auto
  show ?thesis
  proof (cases r)
    case (Some err)
    with p show ?thesis by (simp add: after_gate_def Bind_def forget_def)
  next
    case None
    obtain e b2 tr where q: "Bind w b i k d = (e, b2, tr)"
      by (cases "Bind w b i k d") auto
    from q p None have "(\<exists>rest. tr = probed @ rest \<and> list_all (\<lambda>x. \<not> is_probe x) rest) \<and>
        controllerProbed b2 = controllerProbed b1"
      by (auto simp: Bind_def Bind_locked_latch dest!: critical_section_events)
    with p None q show ?thesis by (simp add: after_gate_def forget_def)
  qed
qed

lemma Unbind_after_gate: "after_gate w b (ud_ServiceID d) (forget (Unbind w b i k d))"
proof -
  obtain r b1 probed where p: "probeController w b (ud_ServiceID d) = (r, b1, probed)"
    by (cases "probeController w b (ud_ServiceID d)") auto
  show ?thesis
  proof (cases r)
    case (Some err)
    with p show ?thesis by (simp add: after_gate_def Unbind_def forget_def)
  next
    case None
    obtain e b2 tr where q: "Unbind w b i k d = (e, b2, tr)"
      by (cases "Unbind w b i k d") auto
    from q p None have "(\<exists>rest. tr = probed @ rest \<and> list_all (\<lambda>x. \<not> is_probe x) rest) \<and>
        controllerProbed b2 = controllerProbed b1"
      by (auto simp: Unbind_def Unbind_locked_latch dest!: critical_section_events)
    with p None q show ?thesis by (simp add: after_gate_def forget_def)
  qed
qed

lemma perform_after_gate: "after_gate w b (service_of x) (perform w b x)"
  by (cases x)
     (simp_all add: Provision_after_gate Deprovision_after_gate Bind_after_gate Unbind_after_gate)

lemma perform_latched:
  assumes "controllerProbed b"
  shows "controllerProbed (fst (snd (perform w b x))) \<and>
         list_all (\<lambda>x. \<not> is_probe x) (snd (snd (perform w b x)))"
  using perform_after_gate [of w b x] assms
  by (auto simp: after_gate_def probeController_def)

lemma perform_registry_failed:
  assumes "\<not> controllerProbed b" and "IdentityClient w (service_of x) = Some err"
  shows "perform w b x = (Fails err, b, [])"
  using perform_after_gate [of w b x] assms
  by (simp add: after_gate_def probeController_def)

lemma perform_probe_failed:
  assumes "\<not> controllerProbed b" and "IdentityClient w (service_of x) = None"
    and "Probe w (service_of x) = Some err"
  shows "perform w b x = (Fails err, b, [EvProbe (service_of x) (Some err)])"
  using perform_after_gate [of w b x] assms
  by (simp add: after_gate_def probeController_def)

lemma perform_probe_succeeded:
  assumes "\<not> controllerProbed b" and "IdentityClient w (service_of x) = None"
    and "Probe w (service_of x) = None"
  shows "controllerProbed (fst (snd (perform w b x))) \<and>
         (\<exists>rest. snd (snd (perform w b x)) = EvProbe (service_of x) None # rest \<and>
                 list_all (\<lambda>x. \<not> is_probe x) rest)"
  using perform_after_gate [of w b x] assms
  by (simp add: after_gate_def probeController_def)

lemma run_latched:
  "controllerProbed b \<Longrightarrow>
     controllerProbed (fst (run b ops)) \<and> list_all (\<lambda>x. \<not> is_probe x) (snd (run b ops))"
proof (induction ops arbitrary: b)
  case Nil
  then show ?case by simp
next
  case (Cons a ops)
  obtain w x where a: "a = (w, x)" by (cases a)
  obtain e b1 tr where s: "perform w b x = (e, b1, tr)" by (cases "perform w b x") auto
  from perform_latched [OF Cons.prems, of w x] s
  have "controllerProbed b1" "list_all (\<lambda>x. \<not> is_probe x) tr" by simp_all
  with Cons.IH [of b1] a s show ?case by (auto split: prod.splits)
qed

lemma run_gated: "\<not> controllerProbed b \<Longrightarrow> gated (snd (run b ops))"
proof (induction ops arbitrary: b)
  case Nil
  then show ?case by (simp add: gated_def)
next
  case (Cons a ops)
  obtain w x where a: "a = (w, x)" by (cases a)
  obtain b2 tr2 where r: "run (fst (snd (perform w b x))) ops = (b2, tr2)"
    by (cases "run (fst (snd (perform w b x))) ops") auto
  show ?case
  proof (cases "IdentityClient w (service_of x)")
    case (Some err)
    from perform_registry_failed [OF Cons.prems Some] Cons.IH [OF Cons.prems] a
    show ?thesis by (auto split: prod.splits)
  next
    case None
    show ?thesis
    proof (cases "Probe w (service_of x)")
      case (Some err)
      from perform_probe_failed [OF Cons.prems None Some] Cons.IH [OF Cons.prems] a
      show ?thesis by (auto simp: gated_def split: prod.splits)
    next
      case ok: None
      from perform_probe_succeeded [OF Cons.prems None ok] obtain rest where
        l: "controllerProbed (fst (snd (perform w b x)))"
        and t: "snd (snd (perform w b x)) = EvProbe (service_of x) None # rest"
        and n: "list_all (\<lambda>x. \<not> is_probe x) rest"
        by auto
      from run_latched [OF l, of ops] r have "list_all (\<lambda>x. \<not> is_probe x) tr2" by simp
      with n t r a show ?thesis
        by (cases "perform w b x") (simp add: gated_def)
    qed
  qed
qed

text \<open>
  C1, as the code has it. The latch is one flag for the whole broker, not one per
  service. Once it is set, no operation of the rest of the process lifetime issues a
  probe, for any service, and it stays set. While it is unset, every operation starts at
  the gate: when the registry does not resolve the identity client the operation fails
  with that error and nothing is issued; when the probe fails the operation fails with
  the error of the probe, the broker is unchanged (the latch stays unset), and the next
  operation probes again; when the probe succeeds the latch is set and the operation
  issues no second probe. Over a whole sequence of operations that starts with the latch
  unset, no controller RPC comes before the first successful probe and no probe comes
  after it.
\<close>

theorem probe_gate:
  "(controllerProbed b \<longrightarrow>
      controllerProbed (fst (run b ops)) \<and> list_all (\<lambda>x. \<not> is_probe x) (snd (run b ops))) \<and>
   (\<not> controllerProbed b \<longrightarrow> gated (snd (run b ops))) \<and>
   (\<not> controllerProbed b \<longrightarrow>
      (\<forall>err. IdentityClient w (service_of x) = Some err \<longrightarrow>
         perform w b x = (Fails err, b, []))) \<and>
   (\<not> controllerProbed b \<longrightarrow> IdentityClient w (service_of x) = None \<longrightarrow>
      (\<forall>err. Probe w (service_of x) = Some err \<longrightarrow>
         perform w b x = (Fails err, b, [EvProbe (service_of x) (Some err)]) \<and>
         (IdentityClient w' (service_of x') = None \<longrightarrow>
            (\<exists>rest. snd (snd (perform w' (fst (snd (perform w b x))) x')) =
               EvProbe (service_of x') (Probe w' (service_of x')) # rest)))) \<and>
   (\<not> controllerProbed b \<longrightarrow> IdentityClient w (service_of x) = None \<longrightarrow>
      Probe w (service_of x) = None \<longrightarrow>
      controllerProbed (fst (snd (perform w b x))) \<and>
      (\<exists>rest. snd (snd (perform w b x)) = EvProbe (service_of x) None # rest \<and>
              list_all (\<lambda>x. \<not> is_probe x) rest))"
proof (intro conjI impI allI)
  assume "controllerProbed b"
  then show "controllerProbed (fst (run b ops))"
    and "list_all (\<lambda>x. \<not> is_probe x) (snd (run b ops))"
    by (simp_all add: run_latched)
next
  assume "\<not> controllerProbed b"
  then show "gated (snd (run b ops))" by (rule run_gated)
next
  fix err
  assume "\<not> controllerProbed b" "IdentityClient w (service_of x) = Some err"
  then show "perform w b x = (Fails err, b, [])" by (rule perform_registry_failed)
next
  fix err
  assume h: "\<not> controllerProbed b" "IdentityClient w (service_of x) = None"
    "Probe w (service_of x) = Some err"
  then show f: "perform w b x = (Fails err, b, [EvProbe (service_of x) (Some err)])"
    by (rule perform_probe_failed)
  assume n: "IdentityClient w' (service_of x') = None"
  show "\<exists>rest. snd (snd (perform w' (fst (snd (perform w b x))) x')) =
               EvProbe (service_of x') (Probe w' (service_of x')) # rest"
  proof (cases "Probe w' (service_of x')")
    case None
    with perform_probe_succeeded [OF h(1) n None] f show ?thesis by auto
  next
    case (Some err')
    with perform_probe_failed [OF h(1) n Some] f show ?thesis by simp
  qed
next
  assume h: "\<not> controllerProbed b" "IdentityClient w (service_of x) = None"
    "Probe w (service_of x) = None"
  from perform_probe_succeeded [OF h]
  show "controllerProbed (fst (snd (perform w b x)))"
    and "\<exists>rest. snd (snd (perform w b x)) = EvProbe (service_of x) None # rest \<and>
              list_all (\<lambda>x. \<not> is_probe x) rest"
    by simp_all
qed

theorem probe_gate_witness:
  "controllerProbed provisioned \<and>
   list_all (\<lambda>x. \<not> is_probe x)
     (snd (run provisioned [(healthy, ProvisionOp ''i2'' details_B)])) \<and>
   \<not> controllerProbed fresh \<and>
   gated (snd (run fresh
     [(plugin_down, ProvisionOp ''i1'' details_A), (healthy, ProvisionOp ''i1'' details_A),
      (healthy, ProvisionOp ''i2'' details_B)])) \<and>
   IdentityClient plugin_down ''A'' = None \<and>
   Probe plugin_down ''A'' = Some (ErrorString ''plugin unavailable'') \<and>
   perform plugin_down fresh (ProvisionOp ''i1'' details_A) =
     (Fails (ErrorString ''plugin unavailable''), fresh,
      [EvProbe ''A'' (Some (ErrorString ''plugin unavailable''))]) \<and>
   IdentityClient healthy ''A'' = None \<and> Probe healthy ''A'' = None \<and>
   controllerProbed (fst (snd (perform healthy fresh (ProvisionOp ''i1'' details_A))))"
proof -
  have h: "controllerProbed provisioned" "\<not> controllerProbed fresh"
    "IdentityClient plugin_down ''A'' = None"
    "Probe plugin_down ''A'' = Some (ErrorString ''plugin unavailable'')"
    "IdentityClient healthy ''A'' = None" "Probe healthy ''A'' = None"
    "service_of (ProvisionOp ''i1'' details_A) = ''A''"
    by (simp_all add: example_defs plugin_down_def operation_defs store_defs)
  let ?x = "ProvisionOp ''i1'' details_A"
  let ?ops = "[(plugin_down, ?x), (healthy, ?x), (healthy, ProvisionOp ''i2'' details_B)]"
  note t =
    probe_gate [where b = provisioned and ops = "[(healthy, ProvisionOp ''i2'' details_B)]"
      and w = healthy and x = ?x and w' = healthy and x' = ?x]
    probe_gate [where b = fresh and ops = ?ops and w = plugin_down and x = ?x
      and w' = healthy and x' = ?x]
    probe_gate [where b = fresh and ops = ?ops and w = healthy and x = ?x
      and w' = healthy and x' = ?x]
  show ?thesis using t h by (simp del: run.simps perform.simps)
qed

text \<open>
  C1 as stated fails with two services: after the probe of service \<^verbatim>\<open>A\<close> succeeded,
  a provision on service \<^verbatim>\<open>B\<close> calls the controller of \<^verbatim>\<open>B\<close> although \<^verbatim>\<open>B\<close> was
  never probed.
\<close>

theorem probe_gate_counterexample:
  "snd (run fresh
     [(healthy, ProvisionOp ''i1'' details_A), (healthy, ProvisionOp ''i2'' details_B)]) =
   [EvProbe ''A'' None,
    EvCreateVolume ''A'' \<lparr>req_Name = ''vol1'', req_VolumeCapabilities = [''mount'']\<rparr>,
    EvLock, EvSave, EvUnlock,
    EvCreateVolume ''B'' \<lparr>req_Name = ''vol2'', req_VolumeCapabilities = [''mount'']\<rparr>,
    EvLock, EvSave, EvUnlock]"
  by (simp add: example_defs details_B_def forget_def operation_defs store_defs)

end
